theory Spec2Isabelle
  imports Complex_Main "HOL-Library.Stream"
begin

section \<open>Floating-point values\<close>

text \<open>
  The kernel computes on C++ \<^verbatim>\<open>Float\<close>/\<^verbatim>\<open>double\<close> values and branches on
  \<^verbatim>\<open>std::isfinite\<close>, \<^verbatim>\<open>std::isinf\<close> and on comparisons that are false for NaN.
  A value is therefore a finite real, one of the two infinities, or NaN. Arithmetic on
  finite values is exact (no rounding, no overflow, no underflow); on the special values
  it follows IEEE-754. The two zeros are not distinguished: a nonzero finite value divided
  by zero takes the sign of the numerator.
\<close>

datatype Float = Fin real | PInf | NInf | NaN

instantiation Float :: "{zero,one,uminus,minus,times,inverse,ord,abs,numeral,power}"
begin

definition zero_Float :: Float where "zero_Float = Fin 0"
definition one_Float :: Float where "one_Float = Fin 1"

fun plus_Float :: "Float \<Rightarrow> Float \<Rightarrow> Float" where
  "plus_Float (Fin a) (Fin b) = Fin (a + b)"
| "plus_Float NaN _ = NaN"
| "plus_Float _ NaN = NaN"
| "plus_Float PInf NInf = NaN"
| "plus_Float NInf PInf = NaN"
| "plus_Float PInf _ = PInf"
| "plus_Float _ PInf = PInf"
| "plus_Float NInf _ = NInf"
| "plus_Float _ NInf = NInf"

fun uminus_Float :: "Float \<Rightarrow> Float" where
  "uminus_Float (Fin a) = Fin (- a)"
| "uminus_Float PInf = NInf"
| "uminus_Float NInf = PInf"
| "uminus_Float NaN = NaN"

definition minus_Float :: "Float \<Rightarrow> Float \<Rightarrow> Float" where
  "minus_Float a b = a + (- b)"

fun times_Float :: "Float \<Rightarrow> Float \<Rightarrow> Float" where
  "times_Float (Fin a) (Fin b) = Fin (a * b)"
| "times_Float NaN _ = NaN"
| "times_Float _ NaN = NaN"
| "times_Float (Fin a) PInf = (if a = 0 then NaN else if 0 < a then PInf else NInf)"
| "times_Float (Fin a) NInf = (if a = 0 then NaN else if 0 < a then NInf else PInf)"
| "times_Float PInf (Fin b) = (if b = 0 then NaN else if 0 < b then PInf else NInf)"
| "times_Float NInf (Fin b) = (if b = 0 then NaN else if 0 < b then NInf else PInf)"
| "times_Float PInf PInf = PInf"
| "times_Float PInf NInf = NInf"
| "times_Float NInf PInf = NInf"
| "times_Float NInf NInf = PInf"

fun inverse_Float :: "Float \<Rightarrow> Float" where
  "inverse_Float (Fin a) = (if a \<noteq> 0 then Fin (1 / a) else PInf)"
| "inverse_Float PInf = Fin 0"
| "inverse_Float NInf = Fin 0"
| "inverse_Float NaN = NaN"

fun divide_Float :: "Float \<Rightarrow> Float \<Rightarrow> Float" where
  "divide_Float (Fin a) (Fin b) =
     (if b \<noteq> 0 then Fin (a / b)
      else if a = 0 then NaN else if 0 < a then PInf else NInf)"
| "divide_Float NaN _ = NaN"
| "divide_Float _ NaN = NaN"
| "divide_Float (Fin a) PInf = Fin 0"
| "divide_Float (Fin a) NInf = Fin 0"
| "divide_Float PInf (Fin b) = (if 0 \<le> b then PInf else NInf)"
| "divide_Float NInf (Fin b) = (if 0 \<le> b then NInf else PInf)"
| "divide_Float PInf PInf = NaN"
| "divide_Float PInf NInf = NaN"
| "divide_Float NInf PInf = NaN"
| "divide_Float NInf NInf = NaN"

fun less_Float :: "Float \<Rightarrow> Float \<Rightarrow> bool" where
  "less_Float (Fin a) (Fin b) = (a < b)"
| "less_Float (Fin a) PInf = True"
| "less_Float NInf (Fin b) = True"
| "less_Float NInf PInf = True"
| "less_Float _ _ = False"

fun less_eq_Float :: "Float \<Rightarrow> Float \<Rightarrow> bool" where
  "less_eq_Float (Fin a) (Fin b) = (a \<le> b)"
| "less_eq_Float (Fin a) PInf = True"
| "less_eq_Float NInf (Fin b) = True"
| "less_eq_Float NInf PInf = True"
| "less_eq_Float PInf PInf = True"
| "less_eq_Float NInf NInf = True"
| "less_eq_Float _ _ = False"

fun abs_Float :: "Float \<Rightarrow> Float" where
  "abs_Float (Fin a) = Fin \<bar>a\<bar>"
| "abs_Float PInf = PInf"
| "abs_Float NInf = PInf"
| "abs_Float NaN = NaN"

instance
proof
  fix a b c :: Float
  show "a + b + c = a + (b + c)"
    by (cases a; cases b; cases c; simp)
qed

end

text \<open>
  \<^verbatim>\<open>std::isfinite\<close>, \<^verbatim>\<open>std::isinf\<close> and the elementary functions of the C++ library
  on these values. \<^verbatim>\<open>pow\<close> is only ever called with a finite constant exponent.
\<close>

fun isfinite :: "Float \<Rightarrow> bool" where
  "isfinite (Fin a) = True"
| "isfinite _ = False"

fun isinf :: "Float \<Rightarrow> bool" where
  "isinf PInf = True"
| "isinf NInf = True"
| "isinf _ = False"

fun sqrt_fl :: "Float \<Rightarrow> Float" where
  "sqrt_fl (Fin a) = (if 0 \<le> a then Fin (sqrt a) else NaN)"
| "sqrt_fl PInf = PInf"
| "sqrt_fl NInf = NaN"
| "sqrt_fl NaN = NaN"

fun cbrt :: "Float \<Rightarrow> Float" where
  "cbrt (Fin a) = Fin (root 3 a)"
| "cbrt PInf = PInf"
| "cbrt NInf = NInf"
| "cbrt NaN = NaN"

fun exp_fl :: "Float \<Rightarrow> Float" where
  "exp_fl (Fin a) = Fin (exp a)"
| "exp_fl PInf = PInf"
| "exp_fl NInf = Fin 0"
| "exp_fl NaN = NaN"

fun log_fl :: "Float \<Rightarrow> Float" where
  "log_fl (Fin a) = (if 0 < a then Fin (ln a) else if a = 0 then NInf else NaN)"
| "log_fl PInf = PInf"
| "log_fl NInf = NaN"
| "log_fl NaN = NaN"

fun pow_fl :: "Float \<Rightarrow> real \<Rightarrow> Float" where
  "pow_fl (Fin a) y =
     (if y = 0 then Fin 1
      else if 0 < a then Fin (a powr y)
      else if a = 0 then (if y < 0 then PInf else Fin 0)
      else if y \<in> \<int> then Fin (a powi \<lfloor>y\<rfloor>) else NaN)"
| "pow_fl PInf y = (if y = 0 then Fin 1 else if y < 0 then Fin 0 else PInf)"
| "pow_fl NInf y =
     (if y = 0 then Fin 1 else if y < 0 then Fin 0
      else if y \<in> \<int> \<and> odd \<lfloor>y\<rfloor> then NInf else PInf)"
| "pow_fl NaN y = (if y = 0 then Fin 1 else NaN)"

definition square :: "Float \<Rightarrow> Float" where
  "square x = x * x"

text \<open>\<^verbatim>\<open>math::clamp(value, min, max)\<close> is \<^verbatim>\<open>std::min(std::max(value, min), max)\<close>;
  \<^verbatim>\<open>std::max(a, b)\<close> is \<^verbatim>\<open>(a < b) ? b : a\<close> and \<^verbatim>\<open>std::min(a, b)\<close> is
  \<^verbatim>\<open>(b < a) ? b : a\<close>.\<close>

definition max_fl :: "Float \<Rightarrow> Float \<Rightarrow> Float" where
  "max_fl a b = (if a < b then b else a)"

definition min_fl :: "Float \<Rightarrow> Float \<Rightarrow> Float" where
  "min_fl a b = (if b < a then b else a)"

definition clamp :: "Float \<Rightarrow> Float \<Rightarrow> Float \<Rightarrow> Float" where
  "clamp v lo hi = min_fl (max_fl v lo) hi"

definition M_PI :: Float where
  "M_PI = Fin pi"

definition SQRT_TWO :: Float where
  "SQRT_TWO = Fin (sqrt 2)"

section \<open>Vectors\<close>

text \<open>
  Modelled from the spec: the geometric primitives of the renderer core (three-component
  vectors and normals with \<^verbatim>\<open>dot\<close>, \<^verbatim>\<open>cross\<close>, \<^verbatim>\<open>normalize\<close>, \<^verbatim>\<open>length\<close>,
  \<^verbatim>\<open>lengthSquared\<close>, \<^verbatim>\<open>isFinite\<close>, \<^verbatim>\<open>isZero\<close>) are declared outside the file
  under study. Normals and vectors share one type here.
\<close>

datatype Vector = Vector (vx: Float) (vy: Float) (vz: Float)

type_synonym Normal = Vector

instantiation Vector :: "{plus,uminus,minus}"
begin

fun plus_Vector :: "Vector \<Rightarrow> Vector \<Rightarrow> Vector" where
  "plus_Vector (Vector a b c) (Vector d e f) = Vector (a + d) (b + e) (c + f)"

fun uminus_Vector :: "Vector \<Rightarrow> Vector" where
  "uminus_Vector (Vector a b c) = Vector (- a) (- b) (- c)"

fun minus_Vector :: "Vector \<Rightarrow> Vector \<Rightarrow> Vector" where
  "minus_Vector (Vector a b c) (Vector d e f) = Vector (a - d) (b - e) (c - f)"

instance ..

end

fun smul :: "Float \<Rightarrow> Vector \<Rightarrow> Vector" where
  "smul k (Vector a b c) = Vector (k * a) (k * b) (k * c)"

fun sdiv :: "Vector \<Rightarrow> Float \<Rightarrow> Vector" where
  "sdiv (Vector a b c) k = Vector (a / k) (b / k) (c / k)"

fun dot :: "Vector \<Rightarrow> Vector \<Rightarrow> Float" where
  "dot (Vector a b c) (Vector d e f) = a * d + b * e + c * f"

fun cross :: "Vector \<Rightarrow> Vector \<Rightarrow> Vector" where
  "cross (Vector a b c) (Vector d e f) =
     Vector (b * f - c * e) (c * d - a * f) (a * e - b * d)"

fun lengthSquared :: "Vector \<Rightarrow> Float" where
  "lengthSquared (Vector a b c) = a * a + b * b + c * c"

definition length_v :: "Vector \<Rightarrow> Float" where
  "length_v v = sqrt_fl (lengthSquared v)"

definition normalize :: "Vector \<Rightarrow> Vector" where
  "normalize v = sdiv v (length_v v)"

fun isFinite_v :: "Vector \<Rightarrow> bool" where
  "isFinite_v (Vector a b c) = (isfinite a \<and> isfinite b \<and> isfinite c)"

fun isZero_v :: "Vector \<Rightarrow> bool" where
  "isZero_v (Vector a b c) = (a = 0 \<and> b = 0 \<and> c = 0)"

section \<open>The medium and its collaborators\<close>

text \<open>The members of the \<^verbatim>\<open>FwdScat\<close> object that the kernel reads.\<close>

record FwdScat =
  sigma_s :: Float
  sigma_a :: Float
  mu :: Float
  m_eta :: Float

text \<open>
  The mode selectors. The enumerations are declared outside the file under study; the
  constructors are the case labels of the \<^verbatim>\<open>switch\<close> statements that consume them, so the
  \<^verbatim>\<open>default:\<close> branches (a logged hard error) are not reachable here.
\<close>

datatype TangentPlaneMode =
  EFrisvadEtAl | EFrisvadEtAlWithMeanNormal | EUnmodifiedIncoming | EUnmodifiedOutgoing

datatype ZvMode = EFrisvadEtAlZv | EBetterDipoleZv | EClassicDiffusion

datatype DipoleMode = EReal | EVirt | ERealAndVirt

text \<open>The random source: \<^verbatim>\<open>next1D()\<close> yields the next number of an infinite sequence.\<close>

type_synonym Sampler = "real stream"

definition next1D :: "Sampler \<Rightarrow> Float \<times> Sampler" where
  "next1D sampler = (Fin (shd sampler), stl sampler)"

text \<open>
  Functions and constants that the kernel calls but that are defined outside the file
  under study are parameters of the model: the diffusion helpers \<^verbatim>\<open>dEon_A\<close> and
  \<^verbatim>\<open>fresnelDiffuseReflectance\<close>, \<^verbatim>\<open>refract\<close> (returning the refracted direction and the
  Fresnel reflectance), the error function, the truncated-normal primitive, the TOMS 748
  root solver (\<open>None\<close> is a thrown exception), the regularisation constant
  \<^verbatim>\<open>MTS_FWDSCAT_DIRECTION_MIN_MU\<close> and the precision-dependent constant
  \<^verbatim>\<open>meanTailCutoff\<close> (\<open>-1e4\<close> in single, \<open>-1e7\<close> in double precision).
\<close>

record Collab =
  dEon_A :: "Float \<Rightarrow> Float"
  fresnelDiffuseReflectance :: "Float \<Rightarrow> Float"
  refract :: "Vector \<Rightarrow> Normal \<Rightarrow> Float \<Rightarrow> Vector \<times> Float"
  erf :: "Float \<Rightarrow> Float"
  truncnorm :: "Float \<Rightarrow> Float \<Rightarrow> Float \<Rightarrow> Float \<Rightarrow> Sampler \<Rightarrow> Float \<times> Sampler"
  truncnormPdf :: "Float \<Rightarrow> Float \<Rightarrow> Float \<Rightarrow> Float \<Rightarrow> Float \<Rightarrow> Float"
  toms748_solve :: "(Float \<Rightarrow> Float) \<Rightarrow> Float \<Rightarrow> Float \<Rightarrow> nat \<Rightarrow> (Float \<times> Float) option"
  MIN_MU :: Float
  meanTailCutoff :: Float

section \<open>Virtual source construction\<close>

text \<open>
  \<^verbatim>\<open>getVirtualDipoleSource\<close>: \<open>None\<close> is the return value \<^verbatim>\<open>false\<close>; on success the
  result holds \<^verbatim>\<open>u0_virt\<close>, \<^verbatim>\<open>R_virt\<close> and the effective normal.
\<close>

definition getVirtualDipoleSource ::
  "FwdScat \<Rightarrow> Collab \<Rightarrow> Normal \<Rightarrow> Vector \<Rightarrow> Normal \<Rightarrow> Vector \<Rightarrow> Vector \<Rightarrow> Float \<Rightarrow> bool \<Rightarrow>
   TangentPlaneMode \<Rightarrow> ZvMode \<Rightarrow> (Vector \<times> Vector \<times> Vector) option" where
  "getVirtualDipoleSource this ext n0 u0 nL uL R len rejectInternalIncoming tangentMode zvMode =
     (case (case tangentMode of
              EFrisvadEtAl \<Rightarrow>
                if length_v R = 0 then Some n0
                else if length_v (cross n0 R) = 0 then None
                else Some (cross (normalize R) (normalize (cross n0 R)))
            | EFrisvadEtAlWithMeanNormal \<Rightarrow>
                let sumNormal = n0 + nL in
                if length_v R = 0 then Some n0
                else if length_v (cross sumNormal R) = 0 then None
                else Some (cross (normalize R) (normalize (cross sumNormal R)))
            | EUnmodifiedIncoming \<Rightarrow> Some n0
            | EUnmodifiedOutgoing \<Rightarrow> Some nL) of
        None \<Rightarrow> None
      | Some n0_effective \<Rightarrow>
          if \<not> isFinite_v n0_effective then None
          else if rejectInternalIncoming \<and> dot n0_effective u0 > 0 then None
          else
            let sigma_sp = sigma_s this * mu this;
                sigma_tp = sigma_sp + sigma_a this
            in (case (case zvMode of
                        EFrisvadEtAlZv \<Rightarrow>
                          if sigma_tp = 0 \<or> sigma_sp = 0 then None
                          else
                            let D = 1 / (3 * sigma_tp);
                                alpha_p = sigma_sp / sigma_tp;
                                d_e = Fin 2.131 * D / sqrt_fl alpha_p;
                                A = dEon_A ext (m_eta this)
                            in Some (2 * A * d_e)
                      | EBetterDipoleZv \<Rightarrow>
                          if sigma_tp = 0 then None
                          else
                            let D = (2 * sigma_a this + sigma_sp) / (3 * square sigma_tp);
                                A = dEon_A ext (m_eta this)
                            in Some (4 * A * D)
                      | EClassicDiffusion \<Rightarrow>
                          if sigma_tp = 0 then None
                          else
                            let Fdr = fresnelDiffuseReflectance ext (1 / m_eta this);
                                A = (1 + Fdr) / (1 - Fdr);
                                D = 1 / (3 * sigma_tp)
                            in Some (4 * A * D)) of
                  None \<Rightarrow> None
                | Some zv \<Rightarrow>
                    Some (u0 - smul (2 * dot n0_effective u0) n0_effective,
                          R - smul zv n0_effective,
                          n0_effective)))"

section \<open>Parameter core\<close>

text \<open>
  \<^verbatim>\<open>calcValues\<close> returns \<open>(C, D, E, F, Z)\<close>. The three regimes of the source are the
  three functions below, each returning the dimensionless \<open>(D, E, F, Z)\<close>; the
  assertions of the source are compiled out in the release configuration
  (\<^verbatim>\<open>MTS_FWDSCAT_DEBUG\<close> undefined), which is the configuration modelled throughout.
\<close>

definition calcValues_series :: "Float \<Rightarrow> Float \<times> Float \<times> Float \<times> Float" where
  "calcValues_series ps =
     (let ps2 = ps * ps; ps3 = ps2 * ps; ps5 = ps2 * ps3;
          D = 1.5 / ps - 0.1 * ps + 13 / 1050 * ps3 - 11 / 7875 * ps5;
          E = (4.5 / ps + 0.3 * ps - 3 / 350 * ps3) / ps;
          F = (4.5 / ps + 1.8 * ps - 3 / 350 * ps3) / ps2;
          Z = E * E / F - 2 * D
      in (D, E, F, Z))"

definition calcValues_asymptotic :: "Float \<Rightarrow> Float \<times> Float \<times> Float \<times> Float" where
  "calcValues_asymptotic ps =
     (let t = exp_fl (- 2 * ps); t2 = t * t;
          tmp = 1.0 / (ps - 1.0);
          D = 0.75 * tmp;
          E = 1.50 * tmp;
          F = 1.50 * tmp;
          Z = 6 * t / (1 - t2)
      in (D, E, F, Z))"

definition calcValues_exact :: "Float \<Rightarrow> Float \<times> Float \<times> Float \<times> Float" where
  "calcValues_exact ps =
     (let t = exp_fl (- 2 * ps); t2 = t * t;
          D = 0.75 * (1 - 4 * ps * t - t2) / (ps - 1 + 2 * t - (ps + 1) * t2);
          E = 1.50 * (1 - t) / (ps - 1 + (ps + 1) * t);
          F = 1.50 * (1 + t) / (ps - 1 + (ps + 1) * t);
          Z = 6 * t / (1 - t2)
      in (D, E, F, Z))"

definition calcValues :: "FwdScat \<Rightarrow> Float \<Rightarrow> Float \<times> Float \<times> Float \<times> Float \<times> Float" where
  "calcValues this len =
     (let p = 0.5 * mu this * sigma_s this;
          s = len;
          ps = p * s;
          C = 3 / ps;
          (D, E, F, Z) =
            (if ps < 0.3 then calcValues_series ps
             else if ps > 9 then calcValues_asymptotic ps
             else calcValues_exact ps)
      in (C, D, E * p, F * (p * p), Z))"

text \<open>The local \<^verbatim>\<open>ZoverExpMinOne\<close> of \<^verbatim>\<open>absorptionAndNormalizationConstant\<close>, documented
  there as \<^verbatim>\<open>Z / (exp(Z) - 1)\<close>.\<close>

definition ZoverExpMinOne :: "Float \<Rightarrow> Float" where
  "ZoverExpMinOne Z =
     (if Z < 0.002 then 1 + 0.5 * Z + 1 / 12 * Z * Z - 1 / 720 * Z * Z * Z * Z
      else Z / (exp_fl Z - 1))"

definition absorptionAndNormalizationConstant :: "FwdScat \<Rightarrow> Float \<Rightarrow> Float" where
  "absorptionAndNormalizationConstant this theLength =
     (let p = 0.5 * sigma_s this * mu this;
          ps = p * theLength
      in if ps < 0.006 then
           let c0 = 81 / 32; c1 = 891 / 320; c2 = 8721 / 6400; c3 = - 374841 / 448000
           in p * p * p * SQRT_TWO * pow_fl M_PI (- 2.5) * exp_fl (- sigma_a this * theLength)
              * pow_fl ps (- 11 / 2) * (c0 + c1 * ps + c2 * ps * ps + c3 * ps * ps * ps)
         else
           let (C, D, E, F, Z) = calcValues this theLength
           in 0.25 / pow_fl M_PI 2.5 * exp_fl (C - D - sigma_a this * theLength)
              * sqrt_fl F * F * ZoverExpMinOne Z)"

section \<open>Tentative virtual source and the real-source weight\<close>

text \<open>
  \<^verbatim>\<open>getTentativeIndexMatchedVirtualSourceDisp\<close>: the flag \<open>wantWeight\<close> says whether the
  pointer \<^verbatim>\<open>optional_realSourceRelativeWeight\<close> is non-null. On success the result holds
  \<^verbatim>\<open>R_virt\<close>, the effective normal and, when requested, the weight
  (\<^verbatim>\<open>MTS_FWDSCAT_GIVE_REAL_AND_VIRTUAL_SOURCE_EQUAL_SAMPLING_WEIGHT\<close> is \<^verbatim>\<open>false\<close>).
\<close>

definition getTentativeIndexMatchedVirtualSourceDisp ::
  "FwdScat \<Rightarrow> Collab \<Rightarrow> Normal \<Rightarrow> Normal \<Rightarrow> Vector \<Rightarrow> Vector \<Rightarrow> Float \<Rightarrow> TangentPlaneMode \<Rightarrow>
   bool \<Rightarrow> (Vector \<times> Vector \<times> Float option) option" where
  "getTentativeIndexMatchedVirtualSourceDisp this ext n0 nL uL R s tangentMode wantWeight =
     (let u0' = Vector NaN NaN NaN;
          rejectInternalIncoming = False;
          zvMode = EClassicDiffusion
      in case getVirtualDipoleSource this ext n0 u0' nL uL R s
                rejectInternalIncoming tangentMode zvMode of
           None \<Rightarrow> None
         | Some (u0_virt', R_virt, n0_effective) \<Rightarrow>
             if \<not> wantWeight then Some (R_virt, n0_effective, None)
             else
               let (C, D, E, F, Z) = calcValues this s;
                   ratio = exp_fl (E * dot (R - R_virt) uL
                                   - F * (lengthSquared R - lengthSquared R_virt));
                   realSourceWeight = (if isinf (ratio + 1) then 1.0 else ratio / (ratio + 1))
               in Some (R_virt, n0_effective, Some realSourceWeight))"

section \<open>Kernel evaluator\<close>

definition reducePrecisionForCosTheta :: "Float \<Rightarrow> Float" where
  "reducePrecisionForCosTheta x = x"

definition roundCosThetaForStability :: "Float \<Rightarrow> Float \<Rightarrow> Float \<Rightarrow> Float" where
  "roundCosThetaForStability cosTheta minCosTheta maxCosTheta =
     reducePrecisionForCosTheta (clamp cosTheta minCosTheta maxCosTheta)"

text \<open>\<^verbatim>\<open>evalMonopole\<close>; the cancellation checks only log.\<close>

definition evalMonopole :: "FwdScat \<Rightarrow> Collab \<Rightarrow> Vector \<Rightarrow> Vector \<Rightarrow> Vector \<Rightarrow> Float \<Rightarrow> Float" where
  "evalMonopole this ext u0 uL R len =
     (let (C, D, E, F, Z) = calcValues this len;
          H = smul E R - smul D uL;
          lHl = length_v H;
          Hnorm = sdiv H lHl;
          lHlreg = (if lHl > 1 / MIN_MU ext then 1 / MIN_MU ext else lHl);
          cosTheta = roundCosThetaForStability (dot u0 Hnorm) (- 1) 1;
          N = absorptionAndNormalizationConstant this len;
          G = N * exp_fl (- C + E * dot R uL + lHlreg * cosTheta - F * lengthSquared R)
      in G)"

definition evalPlaneSource ::
  "FwdScat \<Rightarrow> Vector \<Rightarrow> Vector \<Rightarrow> Vector \<Rightarrow> Float \<Rightarrow> Float \<Rightarrow> Float" where
  "evalPlaneSource this u0 uL n Rz len =
     (let (C, D, E, F, Z) = calcValues this len;
          u0z = dot u0 n;
          uLz = dot uL n;
          result = absorptionAndNormalizationConstant this len
            * M_PI / F * exp_fl (
                E * E / 4 / F * (2 + 2 * dot u0 uL - square (u0z + uLz))
                - D * dot u0 uL
                - C
                + E * Rz * (u0z + uLz)
                - F * Rz * Rz)
      in if \<not> isfinite result then 0 else result)"

text \<open>
  \<^verbatim>\<open>evalDipole\<close>, with \<^verbatim>\<open>MTS_FWDSCAT_DIPOLE_REJECT_INCOMING_WRT_TRUE_SURFACE_NORMAL\<close>
  set to \<^verbatim>\<open>true\<close> as in the source. The function calls itself once, on the reversed
  configuration and with \<^verbatim>\<open>reciprocal = false\<close>.
\<close>

function evalDipole ::
  "FwdScat \<Rightarrow> Collab \<Rightarrow> Normal \<Rightarrow> Vector \<Rightarrow> Normal \<Rightarrow> Vector \<Rightarrow> Vector \<Rightarrow> Float \<Rightarrow> bool \<Rightarrow> bool \<Rightarrow>
   TangentPlaneMode \<Rightarrow> ZvMode \<Rightarrow> bool \<Rightarrow> DipoleMode \<Rightarrow> Float" where
  "evalDipole this ext n0 u0_external nL uL_external R len rejectInternalIncoming reciprocal
       tangentMode zvMode useEffectiveBRDF dipoleMode =
     (if isFinite_v nL \<and> dot uL_external nL \<le> 0 then 0.0
      else if dot u0_external n0 \<ge> 0 then 0.0
      else
        let (u0, F0) = refract ext (- u0_external) n0 (m_eta this);
            (uL', FL) = refract ext uL_external nL (m_eta this);
            uL = - uL';
            fresnelTransmittance = (1 - F0) * (1 - FL)
        in if isZero_v u0 \<or> isZero_v uL then 0.0
           else
             case getVirtualDipoleSource this ext n0 u0 nL uL R len
                    rejectInternalIncoming tangentMode zvMode of
               None \<Rightarrow> 0.0
             | Some (u0_virt, R_virt, n0_effective) \<Rightarrow>
                 if useEffectiveBRDF then
                   let Rv_z = dot R_virt nL
                   in fresnelTransmittance * (
                          evalPlaneSource this u0 uL nL 0.0 len
                        - evalPlaneSource this u0_virt uL nL Rv_z len)
                 else
                   let real = (if dipoleMode = EReal \<or> dipoleMode = ERealAndVirt
                               then evalMonopole this ext u0 uL R len else 0);
                       virt = (if dipoleMode = EVirt \<or> dipoleMode = ERealAndVirt
                               then evalMonopole this ext u0_virt uL R_virt len else 0);
                       transport = (case dipoleMode of
                                      ERealAndVirt \<Rightarrow> real - virt
                                    | EReal \<Rightarrow> real
                                    | EVirt \<Rightarrow> virt)
                   in if reciprocal then
                        let transportRev = evalDipole this ext
                              nL (- uL) n0 (- u0) (- R) len
                              rejectInternalIncoming False
                              tangentMode zvMode useEffectiveBRDF dipoleMode
                        in 0.5 * (transport + transportRev) * fresnelTransmittance
                      else transport * fresnelTransmittance)"
  by pat_completeness auto
termination
  by (relation "measure (\<lambda>(this, ext, n0, u0_external, nL, uL_external, R, len,
        rejectInternalIncoming, reciprocal, rest). if reciprocal then 1 else 0)") auto

declare evalDipole.simps [simp del]

section \<open>Length sampling\<close>

text \<open>
  A sampling routine of the source returns the pdf and writes the sampled length through
  the reference \<^verbatim>\<open>s\<close>; here it returns the pdf, the value of \<^verbatim>\<open>s\<close> after the call and the
  sampler after the call. The result is an \<open>option\<close> where the routine contains a loop
  that need not end: \<open>None\<close> is a call that does not return.
\<close>

definition lengthSample_w1 :: Float where "lengthSample_w1 = 0.5"
definition lengthSample_w2 :: Float where "lengthSample_w2 = 0.5"
definition lengthSample_w3 :: Float where "lengthSample_w3 = 0.0"

subsection \<open>Absorption strategy\<close>

definition sampleLengthAbsorption :: "FwdScat \<Rightarrow> Float \<Rightarrow> Sampler \<Rightarrow> Float \<times> Float \<times> Sampler" where
  "sampleLengthAbsorption this s sampler =
     (if sigma_a this = 0 then (0.0, s, sampler)
      else
        let (u, sampler') = next1D sampler;
            s = - log_fl u / sigma_a this;
            pdf = sigma_a this * exp_fl (- sigma_a this * s)
        in (pdf, s, sampler'))"

definition pdfLengthAbsorption :: "FwdScat \<Rightarrow> Float \<Rightarrow> Float" where
  "pdfLengthAbsorption this s =
     (if sigma_a this = 0 then 0.0
      else sigma_a this * exp_fl (- sigma_a this * s))"

subsection \<open>Short-limit strategy\<close>

text \<open>The loop \<^verbatim>\<open>do { t = truncnorm(mean, stddev, 0.0, 1.0/0.0, sampler); } while (t == 0);\<close>\<close>

partial_function (option) truncnorm_nonzero ::
  "Collab \<Rightarrow> Float \<Rightarrow> Float \<Rightarrow> Sampler \<Rightarrow> (Float \<times> Sampler) option" where
  "truncnorm_nonzero ext mean stddev sampler =
     (let r = truncnorm ext mean stddev 0.0 PInf sampler
      in if fst r = 0 then truncnorm_nonzero ext mean stddev (snd r) else Some r)"

text \<open>The two fits of the mean in \<^verbatim>\<open>implLengthShortLimitKnownU0\<close>: the full expression
  (\<open>r > 1e-4\<close>) and the short-\<open>r\<close> expansion.\<close>

definition shortLimit_mean_full :: "Float \<Rightarrow> Float \<Rightarrow> Float \<Rightarrow> Float" where
  "shortLimit_mean_full r cosTheta0L u0dotuL =
     (let t1 = 1 / r;
          t2 = cosTheta0L * cosTheta0L;
          t3 = t2 * cosTheta0L;
          t5 = sqrt_fl 3;
          t8 = u0dotuL * u0dotuL;
          t18 = r * r;
          t25 = - 108 * r * u0dotuL * cosTheta0L + 96 * t3 * r
                - 216 * r * cosTheta0L - 4 * t2 * t8 - 16 * t2 * u0dotuL
                + 4 * t8 * u0dotuL + 243 * t18 - 16 * t2 + 24 * t8
                + 48 * u0dotuL + 32;
          t26 = sqrt_fl t25;
          t34 = cbrt (12 * t26 * t5 - (72 * cosTheta0L * u0dotuL)
                + (324 * r) + (64 * t3) - (144 * cosTheta0L));
          t35 = t34 * t1;
          t42 = 1 / t34 * t1 * (- 4 * t2 + 3 * u0dotuL + 6);
          t44 = cosTheta0L * t1;
          t46 = t35 / 18 + 2.0 / 9.0 * (t44 - t42);
          t47 = t46 * t46
      in 1.0 / 9.0 / t18 * (6 * cosTheta0L * t47 * r - u0dotuL * t46
                - t35 / 9.0 + 4.0 / 9.0 * (t42 - t44) + 1))"

definition shortLimit_mean_short :: "Float \<Rightarrow> Float \<Rightarrow> Float \<Rightarrow> Float" where
  "shortLimit_mean_short r cosTheta0L u0dotuL =
     (let t1 = sqrt_fl 3.0;
          t3 = (u0dotuL + 2) * (u0dotuL + 2);
          t4 = cosTheta0L * cosTheta0L;
          t7 = sqrt_fl (t3 * (- t4 + u0dotuL + 2));
          t14 = 24 * t1 * t7 - 72 * cosTheta0L * (- 8.0 / 9.0 * t4 + u0dotuL + 2);
          t15 = cbrt t14;
          t16 = t15 * t15;
          t28 = - 8.0 / 3.0 * t4 + u0dotuL + 2.0;
          t35 = t4 * t4;
          t41 = u0dotuL * u0dotuL;
          t48 = r * r
      in ((48 * t4 * cosTheta0L + (- 36 * u0dotuL - 72) * cosTheta0L) * t16
                + 36 * (- 4.0 / 3.0 * t4 + u0dotuL + 2) * t28 * t15
                - 72 * t1 * t28 * t7
                + cosTheta0L * ((768 * t35) + ((- 1152 * u0dotuL - 2304) * t4)
                    + t15 * t14 + (360 * t41) + (1440 * u0dotuL) + 1440))
                / (t16 * t48 * r * 486))"

text \<open>
  The part of \<^verbatim>\<open>implLengthShortLimitKnownU0\<close> that fits the mean and the standard
  deviation of the truncated normal in \<open>t = (ps)\<^sup>-\<^sup>3\<close>, with its two fallbacks.
\<close>

definition knownU0_fit :: "Float \<Rightarrow> Float \<Rightarrow> Float \<Rightarrow> Float \<times> Float" where
  "knownU0_fit r cosTheta0L u0dotuL =
     (let mean = (if r > Fin (1 / 10 ^ 4) then shortLimit_mean_full r cosTheta0L u0dotuL
                  else shortLimit_mean_short r cosTheta0L u0dotuL);
          mean = (if \<not> isfinite mean \<or> mean \<le> 0 then 1 / (r * r * r) else mean);
          mean113 = pow_fl mean (11 / 3);
          mean53 = pow_fl mean (5 / 3);
          mean73 = pow_fl mean (7 / 3);
          mean2 = mean * mean;
          realStddev =
            (if r < Fin (1 / 10 ^ 4) then
               sqrt_fl ((- 54 * r * cosTheta0L + 12 * u0dotuL * u0dotuL + 48 * u0dotuL + 48)
                          * pow_fl mean (8 / 3) / 27
                        + (18 * u0dotuL + 36) * mean73 / 27
                        + (8 * u0dotuL * u0dotuL * u0dotuL + 48 * u0dotuL * u0dotuL
                           + (- 72 * r * cosTheta0L + 96) * u0dotuL
                           - 144 * r * cosTheta0L + 64) * mean * mean * mean / 27
                        + mean * mean)
             else
               sqrt_fl ((3 * mean113)
                        / (3 * mean53 + 6 * mean73 * r * cosTheta0L
                           - (2 * u0dotuL + 4) * mean2)));
          stddevSafetyFactor = 2;
          stddev = stddevSafetyFactor * realStddev;
          stddev = (if \<not> isfinite stddev \<or> stddev \<le> 0 then mean else stddev)
      in (mean, stddev))"

text \<open>
  \<^verbatim>\<open>implLengthShortLimitKnownU0\<close>. The argument \<open>sampler\<close> is \<open>None\<close> for the null pointer
  (pdf evaluation at the given \<open>s\<close>). Every call site passes a non-null \<^verbatim>\<open>pdf\<close> pointer, so
  the pdf is always computed.
\<close>

definition implLengthShortLimitKnownU0 ::
  "FwdScat \<Rightarrow> Collab \<Rightarrow> Vector \<Rightarrow> Vector \<Rightarrow> Vector \<Rightarrow> Float \<Rightarrow> Sampler option \<Rightarrow>
   (Float \<times> Float \<times> Sampler option) option" where
  "implLengthShortLimitKnownU0 this ext R u0 uL s sampler =
     (let p = 0.5 * sigma_s this * mu this;
          lRl = length_v R;
          r = lRl * p
      in if r = 0 then Some (0, if sampler \<noteq> None then 0 else s, sampler)
         else
           let cosTheta0L = clamp (dot R u0 / lRl) (- 1.0) 1.0
                          + clamp (dot R uL / lRl) (- 1.0) 1.0;
               u0dotuL = dot u0 uL;
               (mean, stddev) = knownU0_fit r cosTheta0L u0dotuL
           in case sampler of
                Some smp \<Rightarrow>
                  (case truncnorm_nonzero ext mean stddev smp of
                     None \<Rightarrow> None
                   | Some (t, smp') \<Rightarrow>
                       let ps = pow_fl t (- 1 / 3);
                           s = ps / p;
                           tPdf = truncnormPdf ext mean stddev 0.0 PInf t
                       in Some (tPdf * 3 / (ps * ps * ps * ps) * p, s, Some smp'))
              | None \<Rightarrow>
                  let ps = p * s;
                      t = 1 / (ps * ps * ps);
                      tPdf = truncnormPdf ext mean stddev 0.0 PInf t
                  in Some (tPdf * 3 / (ps * ps * ps * ps) * p, s, None))"

text \<open>
  The code block of \<^verbatim>\<open>implLengthShortLimitMargOverU0_internal\<close> that is left by
  \<^verbatim>\<open>break\<close>: it yields \<^verbatim>\<open>uniformBackupWeight\<close>, \<^verbatim>\<open>t_mean\<close> and \<^verbatim>\<open>t_stddev\<close> (the last two
  start at \<open>-1\<close>).
\<close>

definition margOverU0_fit :: "Float \<Rightarrow> Float \<Rightarrow> Float \<Rightarrow> Float \<Rightarrow> Float \<times> Float \<times> Float" where
  "margOverU0_fit r r2 cosTheta safetyFac =
     (let D = (25 * cosTheta * (cosTheta + 1) - 25 - 30 * r2) / 225.0
      in if D \<le> 0 then (1, - 1, - 1)
         else
           let t_mean25 = ((cosTheta + 1) / 3.0 + sqrt_fl D) / r
           in if t_mean25 \<le> 0 then (1, - 1, - 1)
              else
                let t_mean = t_mean25 * t_mean25 * sqrt_fl t_mean25;
                    t_mean45 = square t_mean25;
                    t_mean85 = square t_mean45;
                    t_var = 125 * t_mean85 / (
                              135 * r2 * t_mean45
                              + 90 * r * (cosTheta + 1) * t_mean25
                              - 54 * r2 - 45 * (cosTheta + 2))
                in if \<not> (t_var > 0) then (1, t_mean, - 1)
                   else if safetyFac = 1.0 then (Fin (1 / 10 ^ 2), t_mean, sqrt_fl t_var)
                   else
                     let t_mean2 = t_mean * t_mean;
                         t_mean4 = t_mean2 * t_mean2;
                         tmp2 = 1764 * square ((safetyFac - 7 / 6) * t_var)
                                + (2450 - 2800 * safetyFac) * t_var * t_mean2
                                + 625 * t_mean4;
                         tmp = (if tmp2 > 0 then sqrt_fl tmp2 else 0);
                         newMean = t_mean
                                * (475 * t_mean2 - 868 * safetyFac * t_var + 931 * t_var - 19 * tmp)
                                / (350 * t_mean2 + (686 - 588 * safetyFac) * t_var - 14 * tmp);
                         newVar = t_var * (7 / 2 - 3 * safetyFac) + 25 / 14 * t_mean2 - tmp / 14
                     in if \<not> isfinite tmp \<or> \<not> isfinite newMean \<or> \<not> (newVar > 0)
                        then (0.3, t_mean, sqrt_fl t_var)
                        else (Fin (1 / 10 ^ 2), newMean, sqrt_fl newVar))"

definition implLengthShortLimitMargOverU0_internal ::
  "FwdScat \<Rightarrow> Collab \<Rightarrow> Vector \<Rightarrow> Vector \<Rightarrow> Float \<Rightarrow> Sampler option \<Rightarrow> Float \<Rightarrow>
   (Float \<times> Float \<times> Sampler option) option" where
  "implLengthShortLimitMargOverU0_internal this ext R uL s sampler safetyFac =
     (let p = 0.5 * sigma_s this * mu this;
          lRl = length_v R;
          r = lRl * p;
          r2 = r * r;
          cosTheta = clamp (dot R uL / lRl) (- 1) 1
      in if r = 0 then Some (0, if sampler \<noteq> None then 0 else s, sampler)
         else
           let (uniformBackupWeight, t_mean, t_stddev) = margOverU0_fit r r2 cosTheta safetyFac;
               uniformBackupWeight =
                 (if t_mean / t_stddev < meanTailCutoff ext then 1 else uniformBackupWeight);
               uniformSpan = 2;
               finish = (\<lambda>ps t s sampler.
                 let tPdf = (if uniformBackupWeight = 1 then 0
                             else truncnormPdf ext t_mean t_stddev 0.0 PInf t);
                     unifPdf = (if ps < uniformSpan then 1.0 / uniformSpan else 0);
                     psPdf = uniformBackupWeight * unifPdf
                           + (1 - uniformBackupWeight) * tPdf * 5.0 / 2.0 * pow_fl ps (- 7 / 2)
                 in Some (psPdf * p, s, sampler))
           in case sampler of
                Some smp \<Rightarrow>
                  let (uniform, smp1) =
                        (if uniformBackupWeight = 1 then (True, smp)
                         else let (x, smp') = next1D smp in (x < uniformBackupWeight, smp'))
                  in if uniform then
                       let (y, smp2) = next1D smp1;
                           ps = uniformSpan * y;
                           t = pow_fl ps (- 5 / 2)
                       in finish ps t (ps / p) (Some smp2)
                     else
                       (case truncnorm_nonzero ext t_mean t_stddev smp1 of
                          None \<Rightarrow> None
                        | Some (t, smp2) \<Rightarrow>
                            let ps = pow_fl t (- 2 / 5)
                            in finish ps t (ps / p) (Some smp2))
              | None \<Rightarrow>
                  let ps = s * p;
                      t = pow_fl ps (- 5 / 2)
                  in finish ps t s None)"

definition implLengthShortLimitMargOverU0 ::
  "FwdScat \<Rightarrow> Collab \<Rightarrow> Vector \<Rightarrow> Vector \<Rightarrow> Float \<Rightarrow> Sampler option \<Rightarrow>
   (Float \<times> Float \<times> Sampler option) option" where
  "implLengthShortLimitMargOverU0 this ext R uL s sampler =
     (let safetyFac = 3;
          safetyWeight = 0.3;
          mix = (\<lambda>pdfSafety pdfOrig. safetyWeight * pdfSafety + (1 - safetyWeight) * pdfOrig)
      in case sampler of
           Some smp \<Rightarrow>
             let (x, smp1) = next1D smp
             in if x > safetyWeight then
                  (case implLengthShortLimitMargOverU0_internal this ext R uL s (Some smp1) safetyFac of
                     None \<Rightarrow> None
                   | Some (pdfSafety, s, smp2) \<Rightarrow>
                       (case implLengthShortLimitMargOverU0_internal this ext R uL s None 1.0 of
                          None \<Rightarrow> None
                        | Some (pdfOrig, s, none) \<Rightarrow> Some (mix pdfSafety pdfOrig, s, smp2)))
                else
                  (case implLengthShortLimitMargOverU0_internal this ext R uL s (Some smp1) 1.0 of
                     None \<Rightarrow> None
                   | Some (pdfOrig, s, smp2) \<Rightarrow>
                       (case implLengthShortLimitMargOverU0_internal this ext R uL s None safetyFac of
                          None \<Rightarrow> None
                        | Some (pdfSafety, s, none) \<Rightarrow> Some (mix pdfSafety pdfOrig, s, smp2)))
         | None \<Rightarrow>
             (case implLengthShortLimitMargOverU0_internal this ext R uL s None 1.0 of
                None \<Rightarrow> None
              | Some (pdfOrig, s, none) \<Rightarrow>
                  (case implLengthShortLimitMargOverU0_internal this ext R uL s None safetyFac of
                     None \<Rightarrow> None
                   | Some (pdfSafety, s, none) \<Rightarrow> Some (mix pdfSafety pdfOrig, s, None))))"

text \<open>\<^verbatim>\<open>implLengthShortLimit\<close>: \<open>u0 = None\<close> is the null pointer (entry direction unknown).\<close>

definition implLengthShortLimit ::
  "FwdScat \<Rightarrow> Collab \<Rightarrow> Vector \<Rightarrow> Vector option \<Rightarrow> Vector \<Rightarrow> Float \<Rightarrow> Sampler option \<Rightarrow>
   (Float \<times> Float \<times> Sampler option) option" where
  "implLengthShortLimit this ext R u0 uL s sampler =
     (case u0 of
        None \<Rightarrow> implLengthShortLimitMargOverU0 this ext R uL s sampler
      | Some u0' \<Rightarrow> implLengthShortLimitKnownU0 this ext R u0' uL s sampler)"

definition sampleLengthShortLimit ::
  "FwdScat \<Rightarrow> Collab \<Rightarrow> Vector \<Rightarrow> Vector option \<Rightarrow> Vector \<Rightarrow> Float \<Rightarrow> Sampler \<Rightarrow>
   (Float \<times> Float \<times> Sampler) option" where
  "sampleLengthShortLimit this ext R u0 uL s sampler =
     (case implLengthShortLimit this ext R u0 uL s (Some sampler) of
        None \<Rightarrow> None
      | Some (pdf, s, None) \<Rightarrow> Some (pdf, s, sampler)
      | Some (pdf, s, Some sampler') \<Rightarrow> Some (pdf, s, sampler'))"

definition pdfLengthShortLimit ::
  "FwdScat \<Rightarrow> Collab \<Rightarrow> Vector \<Rightarrow> Vector option \<Rightarrow> Vector \<Rightarrow> Float \<Rightarrow> Float option" where
  "pdfLengthShortLimit this ext R u0 uL s =
     (case implLengthShortLimit this ext R u0 uL s None of
        None \<Rightarrow> None
      | Some (pdf, s, none) \<Rightarrow> Some pdf)"

subsection \<open>Long-limit strategy\<close>

definition vscale :: "Vector \<Rightarrow> Float \<Rightarrow> Vector" where
  "vscale v k = (case v of Vector a b c \<Rightarrow> Vector (a * k) (b * k) (c * k))"

definition pdfLengthLongLimit :: "FwdScat \<Rightarrow> Vector \<Rightarrow> Vector \<Rightarrow> Float \<Rightarrow> Float" where
  "pdfLengthLongLimit this R uL s =
     (let p = 0.5 * sigma_s this * mu this
      in if p = 0 then 0
         else
           let s_p1 = s * p;
               R_p1 = vscale R p;
               R2minusRdotUL_p1 = lengthSquared R_p1 - dot R_p1 uL;
               beta = 3 / 2 * R2minusRdotUL_p1
           in if beta \<le> 0 then pdfLengthAbsorption this s
              else
                let a_p1 = sigma_a this / p;
                    pdf_p1 = sqrt_fl (beta / M_PI) / (s_p1 * sqrt_fl s_p1)
                           * exp_fl (- beta / s_p1 - a_p1 * s_p1 + 2 * sqrt_fl (beta * a_p1))
                in if \<not> isfinite pdf_p1 then 0 else pdf_p1 * p)"

text \<open>The closures \<^verbatim>\<open>cdf\<close> and \<^verbatim>\<open>target\<close> of \<^verbatim>\<open>sampleLengthLongLimit\<close>; the warning for a
  cdf outside \<open>[0, 1]\<close> only logs.\<close>

definition sampleLengthLongLimit_cdf :: "Collab \<Rightarrow> Float \<Rightarrow> Float \<Rightarrow> Float \<Rightarrow> Float \<Rightarrow> Float" where
  "sampleLengthLongLimit_cdf ext sA sB C ps =
     (let erfDiffArg = (sA * ps + sB) / sqrt_fl ps;
          erfSumArg = (sA * ps - sB) / sqrt_fl ps;
          erfDiff =
            (if erfDiffArg > 3 then
               let x = erfDiffArg; x2 = x * x; x3 = x2 * x; x5 = x3 * x2
               in (1 / x - 0.5 / x3 + 0.75 / x5) * exp_fl (4 * sA * sB - x2) / sqrt_fl M_PI
             else C * (1 - erf ext erfDiffArg));
          erfSum =
            (if erfSumArg < - 3 then
               let x = erfSumArg; x2 = x * x; x3 = x2 * x; x5 = x3 * x2
               in (- 1 / x + 0.5 / x3 - 0.75 / x5) / exp_fl x2 / sqrt_fl M_PI
             else 1 + erf ext erfSumArg);
          theCdf = 0.5 * (erfDiff + erfSum)
      in clamp theCdf 0 1)"

definition sampleLengthLongLimit_target ::
  "Collab \<Rightarrow> Float \<Rightarrow> Float \<Rightarrow> Float \<Rightarrow> Float \<Rightarrow> Float \<Rightarrow> Float" where
  "sampleLengthLongLimit_target ext sA sB C u ps = sampleLengthLongLimit_cdf ext sA sB C ps - u"

text \<open>The loop \<^verbatim>\<open>while (target(hi) < 0 && hi < 1e4*1000/A) hi *= 3;\<close>\<close>

partial_function (option) sampleLengthLongLimit_expand ::
  "(Float \<Rightarrow> Float) \<Rightarrow> Float \<Rightarrow> Float \<Rightarrow> Float option" where
  "sampleLengthLongLimit_expand target A hi =
     (if target hi < 0 \<and> hi < 10000 * 1000 / A
      then sampleLengthLongLimit_expand target A (hi * 3)
      else Some hi)"

text \<open>
  \<^verbatim>\<open>sampleLengthLongLimit\<close>. The solver is called with the iteration cap \<open>1000\<close>; its
  tolerance object belongs to the solver. \<open>None\<close> from the solver is a caught exception.
\<close>

definition sampleLengthLongLimit ::
  "FwdScat \<Rightarrow> Collab \<Rightarrow> Vector \<Rightarrow> Vector \<Rightarrow> Float \<Rightarrow> Sampler \<Rightarrow>
   (Float \<times> Float \<times> Sampler) option" where
  "sampleLengthLongLimit this ext R uL s sampler =
     (let p = 0.5 * sigma_s this * mu this
      in if p = 0 then Some (0, s, sampler)
         else
           let R_p1 = vscale R p;
               R2minusRdotUL_p1 = lengthSquared R_p1 - dot R_p1 uL;
               beta = 3 / 2 * R2minusRdotUL_p1
           in if beta \<le> 0 then Some (sampleLengthAbsorption this s sampler)
              else
                let B = beta;
                    A = sigma_a this / p;
                    sA = sqrt_fl A;
                    sB = sqrt_fl B;
                    C = exp_fl (4 * sA * sB);
                    (u, sampler') = next1D sampler;
                    target = sampleLengthLongLimit_target ext sA sB C u;
                    lo = 0
                in if \<not> isfinite (target lo) \<or> target lo > 0 then Some (0, s, sampler')
                   else
                     let hi = 1000 / A
                     in if \<not> isfinite (target hi) then Some (0, s, sampler')
                        else
                          (case sampleLengthLongLimit_expand target A hi of
                             None \<Rightarrow> None
                           | Some hi \<Rightarrow>
                               if \<not> isfinite (target hi) \<or> target hi < 0
                               then Some (0, s, sampler')
                               else
                                 let max_iter = 1000
                                 in (case toms748_solve ext target lo hi max_iter of
                                       None \<Rightarrow> Some (0, s, sampler')
                                     | Some (a, b) \<Rightarrow>
                                         let s_p1 = 0.5 * (a + b);
                                             s = s_p1 / p
                                         in if \<not> isfinite s then Some (0, s, sampler')
                                            else Some (pdfLengthLongLimit this R uL s, s, sampler'))))"

subsection \<open>The mixture\<close>

text \<open>
  The tail of \<^verbatim>\<open>sampleLengthDipole\<close> after a strategy has been run: it fills in the pdfs
  still at \<open>-1\<close>, averages the long-limit pdf over both displacements and returns the
  importance weight.
\<close>

definition sampleLengthDipole_weight ::
  "FwdScat \<Rightarrow> Collab \<Rightarrow> Vector \<Rightarrow> Vector \<Rightarrow> Vector \<Rightarrow> Vector option \<Rightarrow> Vector \<Rightarrow> Float \<Rightarrow>
   Float \<Rightarrow> Float \<Rightarrow> Float \<Rightarrow> Float option" where
  "sampleLengthDipole_weight this ext R R_effective R_other u0 uL s p1 p2 p3 =
     (case (if p1 = - 1
            then (if lengthSample_w1 = 0 then Some 0 else pdfLengthShortLimit this ext R u0 uL s)
            else Some p1) of
        None \<Rightarrow> None
      | Some p1 \<Rightarrow>
          let p2 = (if p2 = - 1
                    then (if lengthSample_w2 = 0 then 0 else pdfLengthLongLimit this R_effective uL s)
                    else p2);
              p3 = (if p3 = - 1
                    then (if lengthSample_w3 = 0 then 0 else pdfLengthAbsorption this s)
                    else p3);
              p2 = (if lengthSample_w2 \<noteq> 0
                    then 0.5 * (p2 + pdfLengthLongLimit this R_other uL s)
                    else p2)
          in Some (1.0 / (lengthSample_w1 * p1
                        + lengthSample_w2 * p2
                        + lengthSample_w3 * p3)))"

text \<open>\<^verbatim>\<open>sampleLengthDipole\<close> returns the importance weight, \<open>s\<close> and the sampler.\<close>

definition sampleLengthDipole ::
  "FwdScat \<Rightarrow> Collab \<Rightarrow> Vector \<Rightarrow> Vector \<Rightarrow> Vector \<Rightarrow> Vector option \<Rightarrow> Vector \<Rightarrow>
   TangentPlaneMode \<Rightarrow> Float \<Rightarrow> Sampler \<Rightarrow> (Float \<times> Float \<times> Sampler) option" where
  "sampleLengthDipole this ext uL nL R u0 n0 tangentMode s sampler =
     (case getTentativeIndexMatchedVirtualSourceDisp this ext n0 nL uL R NaN tangentMode False of
        None \<Rightarrow> Some (0.0, s, sampler)
      | Some (R_virt, n0_effective, weight) \<Rightarrow>
          let (x, sampler1) = next1D sampler;
              (R_effective, R_other) = (if x < 0.5 then (R, R_virt) else (R_virt, R));
              (u, sampler2) = next1D sampler1;
              finish = (\<lambda>p1 p2 p3 s sampler.
                 case sampleLengthDipole_weight this ext R R_effective R_other u0 uL s p1 p2 p3 of
                   None \<Rightarrow> None
                 | Some w \<Rightarrow> Some (w, s, sampler))
          in if u < lengthSample_w1 then
               (case sampleLengthShortLimit this ext R u0 uL s sampler2 of
                  None \<Rightarrow> None
                | Some (p1, s, sampler3) \<Rightarrow>
                    if p1 = 0 then Some (0.0, s, sampler3)
                    else finish p1 (- 1) (- 1) s sampler3)
             else if u < lengthSample_w1 + lengthSample_w2 then
               (case sampleLengthLongLimit this ext R_effective uL s sampler2 of
                  None \<Rightarrow> None
                | Some (p2, s, sampler3) \<Rightarrow>
                    if p2 = 0 then Some (0.0, s, sampler3)
                    else finish (- 1) p2 (- 1) s sampler3)
             else if u < lengthSample_w1 + lengthSample_w2 + lengthSample_w3 then
               (case sampleLengthAbsorption this s sampler2 of
                  (p3, s, sampler3) \<Rightarrow>
                    if p3 = 0 then Some (0.0, s, sampler3)
                    else finish (- 1) (- 1) p3 s sampler3)
             else finish (- 1) (- 1) (- 1) s sampler2)"

definition pdfLengthDipole ::
  "FwdScat \<Rightarrow> Collab \<Rightarrow> Vector \<Rightarrow> Vector \<Rightarrow> Vector \<Rightarrow> Vector option \<Rightarrow> Vector \<Rightarrow>
   TangentPlaneMode \<Rightarrow> Float \<Rightarrow> Float option" where
  "pdfLengthDipole this ext uL nL R u0 n0 tangentMode s =
     (case getTentativeIndexMatchedVirtualSourceDisp this ext n0 nL uL R NaN tangentMode False of
        None \<Rightarrow> Some 0.0
      | Some (R_virt, n0_effective, weight) \<Rightarrow>
          (case (if lengthSample_w1 = 0 then Some 0
                 else pdfLengthShortLimit this ext R u0 uL s) of
             None \<Rightarrow> None
           | Some p1 \<Rightarrow>
               let p2 = (if lengthSample_w2 = 0 then 0
                         else 0.5 * (pdfLengthLongLimit this R uL s
                                     + pdfLengthLongLimit this R_virt uL s));
                   p3 = (if lengthSample_w3 = 0 then 0 else pdfLengthAbsorption this s)
               in Some (lengthSample_w1 * p1
                      + lengthSample_w2 * p2
                      + lengthSample_w3 * p3)))"

section \<open>Relations used to state the properties\<close>

text \<open>Two values agree within \<open>10\<^sup>-\<^sup>6\<close> relative error, measured against either of them.\<close>

definition agree_rel :: "Float \<Rightarrow> Float \<Rightarrow> bool" where
  "agree_rel a b =
     (\<bar>a - b\<bar> \<le> Fin (1 / 10 ^ 6) * \<bar>a\<bar> \<and> \<bar>a - b\<bar> \<le> Fin (1 / 10 ^ 6) * \<bar>b\<bar>)"

text \<open>The invariant of the optical parameters: \<open>sigma_s > 0\<close> and \<open>mu\<close> in \<open>(0, 1]\<close>, both
  finite.\<close>

definition valid_optics :: "FwdScat \<Rightarrow> bool" where
  "valid_optics this =
     (isfinite (sigma_s this) \<and> 0 < sigma_s this \<and>
      isfinite (mu this) \<and> 0 < mu this \<and> mu this \<le> 1)"

section \<open>Example configurations\<close>

text \<open>
  An index-matched medium (\<open>eta = 1\<close>) with \<open>sigma_s = 1\<close>, \<open>mu = 1\<close> and no absorption,
  and collaborators for it: at \<open>eta = 1\<close> refraction leaves a direction unchanged
  (\<^verbatim>\<open>refract\<close> returns the negated argument, with Fresnel reflectance \<open>0\<close>) and the diffuse
  Fresnel reflectance is \<open>0\<close>. The remaining collaborators are fixed arbitrarily.
\<close>

definition example_medium :: FwdScat where
  "example_medium = \<lparr>sigma_s = 1, sigma_a = 0, mu = 1, m_eta = 1\<rparr>"

definition example_collab :: Collab where
  "example_collab =
     \<lparr>dEon_A = (\<lambda>eta. 1),
      fresnelDiffuseReflectance = (\<lambda>eta. 0),
      refract = (\<lambda>wi n eta. (- wi, 0)),
      erf = (\<lambda>x. 0),
      truncnorm = (\<lambda>mean stddev lo hi sampler. (1, sampler)),
      truncnormPdf = (\<lambda>mean stddev lo hi x. 1),
      toms748_solve = (\<lambda>f lo hi max_iter. None),
      MIN_MU = Fin (1 / 1000),
      meanTailCutoff = Fin (- 10000)\<rparr>"

text \<open>The same medium with absorption \<open>sigma_a = 1\<close>.\<close>

definition example_absorbing_medium :: FwdScat where
  "example_absorbing_medium = \<lparr>sigma_s = 1, sigma_a = 1, mu = 1, m_eta = 1\<rparr>"

section \<open>Properties\<close>

lemma Float_numeral [simp]: "(numeral k :: Float) = Fin (numeral k)"
proof (induction k)
  case One
  show ?case by (simp only: numeral_One one_Float_def)
next
  case (Bit0 k)
  have "(numeral (num.Bit0 k) :: Float) = numeral k + numeral k"
    by (rule numeral_Bit0)
  also have "\<dots> = Fin (numeral k + numeral k)"
    by (simp only: Bit0 plus_Float.simps)
  also have "numeral k + numeral k = (numeral (num.Bit0 k) :: real)"
    by (simp only: numeral_Bit0)
  finally show ?case .
next
  case (Bit1 k)
  have "(numeral (num.Bit1 k) :: Float) = numeral k + numeral k + 1"
    by (rule numeral_Bit1)
  also have "\<dots> = Fin (numeral k + numeral k + 1)"
    by (simp only: Bit1 plus_Float.simps one_Float_def)
  also have "numeral k + numeral k + 1 = (numeral (num.Bit1 k) :: real)"
    by (simp only: numeral_Bit1)
  finally show ?case .
qed

lemmas Float_consts [simp] = zero_Float_def one_Float_def minus_Float_def

lemma Float_power [simp]: "Fin a ^ n = Fin (a ^ n)"
  by (induction n) simp_all

lemma isfinite_Fin: "isfinite x \<longleftrightarrow> (\<exists>a. x = Fin a)"
  by (cases x) simp_all

lemma isFinite_v_Fin: "isFinite_v v \<longleftrightarrow> (\<exists>a b c. v = Vector (Fin a) (Fin b) (Fin c))"
  by (cases v) (auto simp: isfinite_Fin)

lemma valid_optics_Fin:
  "valid_optics this \<longleftrightarrow> (\<exists>m ss. mu this = Fin m \<and> 0 < m \<and> m \<le> 1 \<and> sigma_s this = Fin ss \<and> 0 < ss)"
  by (auto simp: valid_optics_def isfinite_Fin)

lemma finite_p:
  assumes "isfinite (sigma_s this)" "isfinite (mu this)"
  shows "\<exists>p. 0.5 * sigma_s this * mu this = Fin p"
proof -
  obtain a b where "sigma_s this = Fin a" "mu this = Fin b"
    using assms by (auto simp: isfinite_Fin)
  then have "0.5 * sigma_s this * mu this = Fin (5 / 10 * a * b)" by simp
  then show ?thesis by blast
qed

text \<open>
  C9. The virtual source does not depend on the \<^verbatim>\<open>length\<close> argument: for any two
  length values (NaN included, as passed by the length samplers) and otherwise equal
  arguments, \<^verbatim>\<open>getVirtualDipoleSource\<close> returns the same success flag and the same
  \<^verbatim>\<open>u0_virt\<close>, \<^verbatim>\<open>R_virt\<close> and effective normal.
\<close>

theorem getVirtualDipoleSource_length_independent:
  "getVirtualDipoleSource this ext n0 u0 nL uL R len1 rej tangentMode zvMode =
   getVirtualDipoleSource this ext n0 u0 nL uL R len2 rej tangentMode zvMode
   \<and> getVirtualDipoleSource this ext n0 u0 nL uL R NaN rej tangentMode zvMode =
     getVirtualDipoleSource this ext n0 u0 nL uL R len2 rej tangentMode zvMode"
  by (simp add: getVirtualDipoleSource_def)

subsection \<open>Shape parameters are nonnegative\<close>

lemma exp_diff_gt: 
  fixes y :: real assumes "0 < y" shows "2 * y < exp y - exp (- y)"
proof -
  define q where "q = 1 + y + y\<^sup>2 / 2"
  have q1: "1 < q" using assms by (simp add: q_def add_pos_nonneg)
  have qe: "q \<le> exp y" unfolding q_def using exp_lower_Taylor_quadratic[of y] assms by simp
  have e: "q * q - 2 * y * q - 1 = y^4 / 4"
    by (simp add: q_def power2_eq_square power4_eq_xxxx algebra_simps)
  have "0 < y^4 / 4" using assms by simp
  then have "0 < q * q - 2 * y * q - 1" by (simp only: e)
  moreover have "q * (q - 2 * y) = q * q - 2 * y * q" by (simp add: algebra_simps)
  ultimately have "q * (q - 2 * y) > 1" by linarith
  then have "q - 2 * y > 1 / q" using q1 by (simp add: field_simps)
  moreover have "1 / exp y \<le> 1 / q" using qe q1 by (simp add: frac_le)
  ultimately show ?thesis using qe by (simp add: exp_minus')
qed

lemma exp_minus_gt:
  fixes y :: real assumes "0 < y" shows "1 - y < exp (- y)"
proof (cases "y < 2")
  case True
  have "1 + (- y / 2) \<le> exp (- y / 2)" by (rule exp_ge_add_one_self)
  moreover have "0 \<le> 1 + (- y / 2)" using True by simp
  ultimately have "(1 + (- y / 2)) * (1 + (- y / 2)) \<le> exp (- y / 2) * exp (- y / 2)"
    by (intro mult_mono) auto
  also have "exp (- y / 2) * exp (- y / 2) = exp (- y)"
    by (simp add: exp_add[symmetric])
  finally have "1 - y + y * y / 4 \<le> exp (- y)" by (simp add: algebra_simps)
  moreover have "0 < y * y / 4" using assms by simp
  ultimately show ?thesis by linarith
next
  case False
  then have "1 - y < 0" by simp
  also have "0 < exp (- y)" by simp
  finally show ?thesis .
qed

lemma den_pos_aux:
  fixes x :: real assumes "0 < x" shows "0 < (x - 1) * exp (2 * x) + x + 1"
proof -
  let ?m = "\<lambda>x::real. (x - 1) * exp (2 * x) + x + 1"
  have "?m 0 < ?m x"
  proof (rule DERIV_pos_imp_increasing_open[OF assms])
    fix z :: real assume z: "0 < z" "z < x"
    have d: "(?m has_real_derivative ((2 * z - 1) * exp (2 * z) + 1)) (at z)"
      by (auto intro!: derivative_eq_intros simp: algebra_simps)
    have "1 - 2 * z < exp (- (2 * z))" using exp_minus_gt[of "2 * z"] z by simp
    then have "(1 - 2 * z) * exp (2 * z) < exp (- (2 * z)) * exp (2 * z)"
      by (intro mult_strict_right_mono) auto
    also have "exp (- (2 * z)) * exp (2 * z) = 1" by (simp add: exp_add[symmetric])
    finally have "0 < (2 * z - 1) * exp (2 * z) + 1" by (simp add: algebra_simps)
    with d show "\<exists>y. (?m has_real_derivative y) (at z) \<and> 0 < y" by blast
  next
    show "continuous_on {0..x} ?m" by (intro continuous_intros)
  qed
  then show ?thesis by simp
qed

lemma denE_pos:
  fixes x :: real assumes "0 < x" shows "0 < x - 1 + (x + 1) * exp (- 2 * x)"
proof -
  have "0 < ((x - 1) * exp (2 * x) + x + 1) * exp (- 2 * x)"
    using den_pos_aux[OF assms] by (intro mult_pos_pos) auto
  also have "\<dots> = (x - 1) * (exp (2 * x) * exp (- 2 * x)) + (x + 1) * exp (- 2 * x)"
    by (simp add: algebra_simps)
  also have "exp (2 * x) * exp (- 2 * x) = 1" by (simp add: exp_add[symmetric])
  finally show ?thesis by simp
qed

lemma numD_pos:
  fixes x :: real assumes "0 < x" 
  shows "0 < 1 - 4 * x * exp (- 2 * x) - exp (- 2 * x) * exp (- 2 * x)"
proof -
  have "2 * (2 * x) < exp (2 * x) - exp (- (2 * x))" using exp_diff_gt[of "2 * x"] assms by simp
  then have "(2 * (2 * x)) * exp (- 2 * x) < (exp (2 * x) - exp (- (2 * x))) * exp (- 2 * x)"
    by (intro mult_strict_right_mono) auto
  also have "\<dots> = exp (2 * x) * exp (- 2 * x) - exp (- 2 * x) * exp (- 2 * x)"
    by (simp add: algebra_simps)
  also have "exp (2 * x) * exp (- 2 * x) = 1" by (simp add: exp_add[symmetric])
  finally show ?thesis by (simp add: algebra_simps)
qed

lemma denD_factor:
  fixes x t :: real
  shows "x - 1 + 2 * t - (x + 1) * (t * t) = (1 - t) * (x - 1 + (x + 1) * t)"
  by (simp add: algebra_simps)

lemma small_powers:
  fixes x :: real assumes "0 < x" "x < 3/10"
  shows "0 < x * x" "x * x < 9/100" "0 < x * x * x" "x * x * x < 27/1000"
    "0 < x * x * (x * x * x)" "x * x * (x * x * x) < 243/100000"
proof -
  show p2: "0 < x * x" using assms by simp
  show b2: "x * x < 9/100" using mult_strict_mono[of x "3/10" x "3/10"] assms by simp
  show p3: "0 < x * x * x" using assms by simp
  show b3: "x * x * x < 27/1000" using mult_strict_mono[of "x * x" "9/100" x "3/10"] assms b2 by simp
  show "0 < x * x * (x * x * x)" using assms by simp
  show "x * x * (x * x * x) < 243/100000"
    using mult_strict_mono[of "x * x" "9/100" "x * x * x" "27/1000"] b2 b3 p3 by simp
qed

lemma series_D_pos:
  fixes x :: real assumes "0 < x" "x < 3/10"
  shows "0 < 15 / 10 / x - 1 / 10 * x + 13 / 1050 * (x * x * x) - 11 / 7875 * (x * x * (x * x * x))"
    and "15 / 10 / x - 1 / 10 * x + 13 / 1050 * (x * x * x) - 11 / 7875 * (x * x * (x * x * x)) < 15 / 10 / x"
proof -
  have a: "5 < 15 / 10 / x" using assms by (simp add: field_simps)
  note sp = small_powers[OF assms]
  show "0 < 15 / 10 / x - 1 / 10 * x + 13 / 1050 * (x * x * x) - 11 / 7875 * (x * x * (x * x * x))"
    using a assms sp by linarith
  have "27 * (x * x * x) < 27 * (x * 1)" using sp(2) assms
    by (intro mult_strict_left_mono) (simp_all add: mult.assoc[symmetric])
  then show "15 / 10 / x - 1 / 10 * x + 13 / 1050 * (x * x * x) - 11 / 7875 * (x * x * (x * x * x)) < 15 / 10 / x"
    using assms sp by linarith
qed

lemma calcValues_series_Fin:
  fixes x :: real assumes "0 < x" "x < 3/10"
  shows "\<exists>D E F Z. calcValues_series (Fin x) = (Fin D, Fin E, Fin F, Fin Z) \<and> 
     0 < D \<and> 0 < E \<and> 0 < F \<and> 0 < Z"
proof -
  note sp = small_powers[OF assms]
  define a where "a = 45 / 10 / x"
  have a: "15 < a" using assms by (simp add: a_def field_simps)
  define d where "d = 15 / 10 / x - 1 / 10 * x + 13 / 1050 * (x * x * x) - 11 / 7875 * (x * x * (x * x * x))"
  define e where "e = a + 3 / 10 * x - 3 / 350 * (x * x * x)"
  define f where "f = a + 18 / 10 * x - 3 / 350 * (x * x * x)"
  have d: "0 < d" "d < a / 3" unfolding d_def a_def using series_D_pos[OF assms] by simp_all
  have e: "0 < e" "a - 1 < e" unfolding e_def using a assms sp by linarith+
  have f: "0 < f" "f < a + 1" unfolding f_def using a assms sp by linarith+
  have xx: "x * x \<noteq> 0" "x \<noteq> 0" using assms by simp_all
  have E: "0 < e / x" using e assms by simp
  have F: "0 < f / (x * x)" using f assms by simp
  have "2 * d * f < 2 * (a / 3) * (a + 1)"
  proof (rule mult_strict_mono)
    show "2 * d < 2 * (a / 3)" using d by simp
    show "f < a + 1" by (rule f)
    show "0 < 2 * (a / 3)" using a by simp
    show "0 \<le> f" using f by simp
  qed
  also have "\<dots> \<le> (a - 1) * (a - 1)" 
  proof -
    have eq: "(a - 1) * (a - 1) - 2 * (a / 3) * (a + 1) = (a * (a - 8) + 3) / 3"
      by (simp add: algebra_simps)
    have "0 < a * (a - 8)" using a by simp
    then have "0 < (a * (a - 8) + 3) / 3" by simp
    then have "0 < (a - 1) * (a - 1) - 2 * (a / 3) * (a + 1)" by (simp only: eq)
    then show ?thesis by simp
  qed
  also have "\<dots> < e * e" using e a by (intro mult_strict_mono) auto
  finally have "2 * d * f < e * e" .
  then have "2 * d < e * e / f" using f by (simp add: field_simps)
  then have Z0: "0 < e * e / f - 2 * d" by simp
  have eqE: "e / x * (e / x) / (f / (x * x)) = e * e / f" using xx f(1) by (simp add: field_simps)
  have Z: "0 < e / x * (e / x) / (f / (x * x)) - 2 * d" using Z0 by (simp only: eqE)
  have "calcValues_series (Fin x) = (Fin d, Fin (e / x), Fin (f / (x * x)), Fin (e / x * (e / x) / (f / (x * x)) - 2 * d))"
    using xx f(1) by (simp add: calcValues_series_def Let_def d_def e_def f_def a_def)
  with d E F Z show ?thesis by blast
qed

lemma calcValues_exact_facts:
  fixes x :: real assumes "0 < x"
  defines "t \<equiv> exp (- 2 * x)"
  shows "0 < t" "t < 1" "0 < 1 - t * t" "0 < x - 1 + (x + 1) * t"
    "0 < x - 1 + 2 * t - (x + 1) * (t * t)" "0 < 1 - 4 * x * t - t * t"
proof -
  show t: "0 < t" "t < 1" using assms by (simp_all add: t_def)
  have tt: "t * t < 1" using mult_strict_mono[of t 1 t 1] t by simp
  then show "0 < 1 - t * t" by simp
  show de: "0 < x - 1 + (x + 1) * t" unfolding t_def using denE_pos[OF assms(1)] .
  have "x - 1 + 2 * t - (x + 1) * (t * t) = (1 - t) * (x - 1 + (x + 1) * t)"
    by (rule denD_factor)
  then show "0 < x - 1 + 2 * t - (x + 1) * (t * t)" using t de by simp
  show "0 < 1 - 4 * x * t - t * t" unfolding t_def using numD_pos[OF assms(1)] .
qed

lemma calcValues_exact_eq:
  fixes x :: real assumes "0 < x"
  shows "calcValues_exact (Fin x) =
     (Fin (3 / 4 * (1 - 4 * x * exp (- 2 * x) - exp (- 2 * x) * exp (- 2 * x))
            / (x - 1 + 2 * exp (- 2 * x) - (x + 1) * (exp (- 2 * x) * exp (- 2 * x)))),
      Fin (3 / 2 * (1 - exp (- 2 * x)) / (x - 1 + (x + 1) * exp (- 2 * x))),
      Fin (3 / 2 * (1 + exp (- 2 * x)) / (x - 1 + (x + 1) * exp (- 2 * x))),
      Fin (6 * exp (- 2 * x) / (1 - exp (- 2 * x) * exp (- 2 * x))))"
  using calcValues_exact_facts(3,4,5)[OF assms]
  by (simp add: calcValues_exact_def Let_def)

lemma calcValues_exact_Fin:
  fixes x :: real assumes "0 < x"
  shows "\<exists>D E F Z. calcValues_exact (Fin x) = (Fin D, Fin E, Fin F, Fin Z) \<and>
     0 < D \<and> 0 < E \<and> 0 < F \<and> 0 < Z"
proof -
  note f = calcValues_exact_facts[OF assms]
  have "0 < 3 / 4 * (1 - 4 * x * exp (- 2 * x) - exp (- 2 * x) * exp (- 2 * x))
            / (x - 1 + 2 * exp (- 2 * x) - (x + 1) * (exp (- 2 * x) * exp (- 2 * x)))"
    using f(5,6) by simp
  moreover have "0 < 3 / 2 * (1 - exp (- 2 * x)) / (x - 1 + (x + 1) * exp (- 2 * x))"
    using f(2,4) by simp
  moreover have "0 < 3 / 2 * (1 + exp (- 2 * x)) / (x - 1 + (x + 1) * exp (- 2 * x))"
    using f(1,4) by (simp add: add_pos_pos)
  moreover have "0 < 6 * exp (- 2 * x) / (1 - exp (- 2 * x) * exp (- 2 * x))"
    using f(1,3) by simp
  ultimately show ?thesis using calcValues_exact_eq[OF assms] by blast
qed

lemma calcValues_asymptotic_eq:
  fixes x :: real assumes "1 < x"
  shows "calcValues_asymptotic (Fin x) =
     (Fin (3 / 4 * (1 / (x - 1))), Fin (3 / 2 * (1 / (x - 1))), Fin (3 / 2 * (1 / (x - 1))),
      Fin (6 * exp (- 2 * x) / (1 - exp (- 2 * x) * exp (- 2 * x))))"
proof -
  have "0 < x" using assms by simp
  from calcValues_exact_facts(3)[OF this] show ?thesis using assms
    by (simp add: calcValues_asymptotic_def Let_def)
qed

lemma calcValues_asymptotic_Fin:
  fixes x :: real assumes "1 < x"
  shows "\<exists>D E F Z. calcValues_asymptotic (Fin x) = (Fin D, Fin E, Fin F, Fin Z) \<and>
     0 < D \<and> 0 < E \<and> 0 < F \<and> 0 < Z"
proof -
  have x: "0 < x" using assms by simp
  note f = calcValues_exact_facts[OF x]
  have "0 < 6 * exp (- 2 * x) / (1 - exp (- 2 * x) * exp (- 2 * x))"
    using f(1,3) by simp
  then show ?thesis using calcValues_asymptotic_eq[OF assms] assms by simp
qed

lemma calcValues_Fin:
  assumes "mu this = Fin m" "0 < m" "sigma_s this = Fin ss" "0 < ss" "0 < s"
  shows "\<exists>C D E F Z. calcValues this (Fin s) = (Fin C, Fin D, Fin E, Fin F, Fin Z) \<and>
     0 < C \<and> 0 < D \<and> 0 < E \<and> 0 < F \<and> 0 < Z"
proof -
  define p where "p = 5 / 10 * m * ss"
  define x where "x = p * s"
  have p: "0 < p" using assms by (simp add: p_def)
  have x: "0 < x" using p assms by (simp add: x_def)
  have "\<exists>D E F Z. (if Fin x < 0.3 then calcValues_series (Fin x)
             else if Fin x > 9 then calcValues_asymptotic (Fin x)
             else calcValues_exact (Fin x)) = (Fin D, Fin E, Fin F, Fin Z) \<and> 
     0 < D \<and> 0 < E \<and> 0 < F \<and> 0 < Z"
  proof (cases "x < 3 / 10")
    case True
    then show ?thesis using calcValues_series_Fin[OF x True] by simp
  next
    case False
    show ?thesis
    proof (cases "9 < x")
      case True
      then have "1 < x" by simp
      from calcValues_asymptotic_Fin[OF this] show ?thesis using True False by simp
    next
      case f2: False
      from calcValues_exact_Fin[OF x] show ?thesis using False f2 by simp
    qed
  qed
  then obtain D E F Z where b: "(if Fin x < 0.3 then calcValues_series (Fin x)
             else if Fin x > 9 then calcValues_asymptotic (Fin x)
             else calcValues_exact (Fin x)) = (Fin D, Fin E, Fin F, Fin Z)"
     and pos: "0 < D" "0 < E" "0 < F" "0 < Z" by blast
  have pp: "0.5 * Fin m * Fin ss = Fin p" by (simp add: p_def)
  have ps: "Fin p * Fin s = Fin x" by (simp add: x_def)
  have c: "3 / Fin x = Fin (3 / x)" using x by simp
  have "calcValues this (Fin s) = (Fin (3 / x), Fin D, Fin (E * p), Fin (F * (p * p)), Fin Z)"
    unfolding calcValues_def Let_def assms(1) assms(3) pp ps b c by simp
  moreover have "0 < 3 / x" "0 < E * p" "0 < F * (p * p)" using x p pos by simp_all
  ultimately show ?thesis using pos by blast
qed

text \<open>
  C4. For every \<open>mu\<close> in \<open>(0, 1]\<close>, \<open>sigma_s > 0\<close> and \<open>s > 0\<close> the values \<open>C\<close>,
  \<open>D\<close>, \<open>E\<close>, \<open>F\<close> and \<open>Z\<close> computed by \<^verbatim>\<open>calcValues\<close> are nonnegative (and
  hence not NaN), whichever of the three regimes \<open>ps < 0.3\<close>, \<open>0.3 \<le> ps \<le> 9\<close>,
  \<open>ps > 9\<close> is taken.
\<close>

theorem calcValues_nonneg:
  assumes "mu this = Fin m" "0 < m" "m \<le> 1" "sigma_s this = Fin ss" "0 < ss" "0 < s"
  shows "case calcValues this (Fin s) of
           (C, D, E, F, Z) \<Rightarrow> 0 \<le> C \<and> 0 \<le> D \<and> 0 \<le> E \<and> 0 \<le> F \<and> 0 \<le> Z"
proof -
  from calcValues_Fin[OF assms(1,2,4,5,6)] obtain C D E F Z where
    "calcValues this (Fin s) = (Fin C, Fin D, Fin E, Fin F, Fin Z)"
    "0 < C" "0 < D" "0 < E" "0 < F" "0 < Z" by blast
  then show ?thesis by simp
qed

theorem calcValues_nonneg_witness:
  "mu \<lparr>sigma_s = 1, sigma_a = 0, mu = 1, m_eta = 1\<rparr> = Fin 1 \<and> (0::real) < 1 \<and> (1::real) \<le> 1
   \<and> sigma_s \<lparr>sigma_s = 1, sigma_a = 0, mu = 1, m_eta = 1\<rparr> = Fin 1
   \<and> (case calcValues \<lparr>sigma_s = 1, sigma_a = 0, mu = 1, m_eta = 1\<rparr> (Fin 1) of
           (C, D, E, F, Z) \<Rightarrow> 0 \<le> C \<and> 0 \<le> D \<and> 0 \<le> E \<and> 0 \<le> F \<and> 0 \<le> Z)"
  using calcValues_nonneg[of "\<lparr>sigma_s = 1, sigma_a = 0, mu = 1, m_eta = 1\<rparr>" 1 1 1]
  by simp

subsection \<open>The regimes agree at their boundaries\<close>

lemma exp_m35_bounds:
  "54881163609 / 100000000000 \<le> exp (- (3/5) :: real)"
  "exp (- (3/5) :: real) \<le> 54881163610 / 100000000000"
proof -
  obtain t :: real where t: "\<bar>t\<bar> \<le> \<bar>- (3/5)\<bar>"
    and e: "exp (- (3/5) :: real) = (\<Sum>m<14. ((- (3/5)) ^ m) / fact m) + (exp t / fact 14) * (- (3/5)) ^ 14"
    using Maclaurin_exp_le[of "- (3/5)" 14] by blast
  have "exp t \<le> exp (3/5)" using t by simp
  also have "\<dots> \<le> 1 + 3/5 + (3/5)\<^sup>2" by (rule exp_bound) simp_all
  finally have et: "exp t \<le> 2" by (simp add: power2_eq_square)
  have et0: "0 < exp t" by simp
  have S: "(\<Sum>m<14. ((- (3/5::real)) ^ m) / fact m) = 1226250999397571/2234375000000000"
    by (simp add: eval_nat_numeral lessThan_Suc fact_numeral)
  have r0: "0 \<le> (exp t / fact 14) * (- (3/5)) ^ 14" using et0 by simp
  have "(exp t / fact 14) * (- (3/5)) ^ 14 \<le> (2 / fact 14) * (- (3/5)) ^ 14"
    using et by (intro mult_right_mono divide_right_mono) simp_all
  also have "\<dots> \<le> 1 / 10 ^ 13" by (simp add: fact_numeral power_divide)
  finally have r1: "(exp t / fact 14) * (- (3/5)) ^ 14 \<le> 1 / 10 ^ 13" .
  define r where "r = (exp t / fact 14) * (- (3/5)) ^ 14"
  have e': "exp (- (3/5) :: real) = 1226250999397571/2234375000000000 + r"
    unfolding r_def using e S by simp
  have r: "0 \<le> r" "r \<le> 1 / 10 ^ 13" using r0 r1 unfolding r_def by blast+
  show "54881163609 / 100000000000 \<le> exp (- (3/5) :: real)"
    unfolding e' using r by simp
  show "exp (- (3/5) :: real) \<le> 54881163610 / 100000000000"
    unfolding e' using r by simp
qed

lemma exp_m18_bounds:
  "0 < exp (- 18 :: real)" "exp (- 18 :: real) \<le> 2 / 10 ^ 8"
proof -
  show "0 < exp (- 18 :: real)" by simp
  have "1 + 1/4 + (1/4)\<^sup>2 / 2 \<le> exp (1/4 :: real)" by (rule exp_lower_Taylor_quadratic) simp
  then have "(41/32) \<le> exp (1/4 :: real)" by (simp add: power2_eq_square)
  then have "(41/32) ^ 72 \<le> exp (1/4 :: real) ^ 72" by (intro power_mono) simp_all
  also have "exp (1/4 :: real) ^ 72 = exp (of_nat 72 * (1/4))" by (rule exp_of_nat_mult[symmetric])
  also have "\<dots> = exp 18" by simp
  finally have "(41/32) ^ 72 \<le> exp (18::real)" .
  moreover have "(10::real) ^ 8 / 2 \<le> (41/32) ^ 72" by (simp add: power_divide)
  ultimately have "(10::real) ^ 8 / 2 \<le> exp 18" by linarith
  then have "1 / exp (18::real) \<le> 1 / (10 ^ 8 / 2)" by (intro divide_left_mono) simp_all
  then show "exp (- 18 :: real) \<le> 2 / 10 ^ 8" by (simp add: exp_minus')
qed

lemma agree_rel_Fin:
  "agree_rel (Fin a) (Fin b) \<longleftrightarrow> \<bar>a - b\<bar> \<le> \<bar>a\<bar> / 10 ^ 6 \<and> \<bar>a - b\<bar> \<le> \<bar>b\<bar> / 10 ^ 6"
  by (simp add: agree_rel_def)

lemma agree_rel_frac:
  fixes a n d :: real
  assumes "0 < d" "0 < n" "0 < a"
    and b: "a * d - n \<le> n / 10 ^ 6" "n - a * d \<le> n / 10 ^ 6"
      "a * d - n \<le> a * d / 10 ^ 6" "n - a * d \<le> a * d / 10 ^ 6"
  shows "agree_rel (Fin a) (Fin (n / d))"
proof -
  have ab: "\<bar>a * d - n\<bar> \<le> n / 10 ^ 6" "\<bar>a * d - n\<bar> \<le> a * d / 10 ^ 6"
    using b by linarith+
  have "\<bar>a - n / d\<bar> = \<bar>a * d - n\<bar> / d"
  proof -
    have "a - n / d = (a * d - n) / d" using assms(1) by (simp add: field_simps)
    then have "\<bar>a - n / d\<bar> = \<bar>(a * d - n) / d\<bar>" by (simp only:)
    also have "\<dots> = \<bar>a * d - n\<bar> / \<bar>d\<bar>" by (rule abs_divide)
    also have "\<bar>d\<bar> = d" using assms(1) by simp
    finally show ?thesis .
  qed
  moreover have "\<bar>a * d - n\<bar> / d \<le> (n / 10 ^ 6) / d" using assms(1) ab by (intro divide_right_mono) simp_all
  moreover have "\<bar>a * d - n\<bar> / d \<le> (a * d / 10 ^ 6) / d" using assms(1) ab by (intro divide_right_mono) simp_all
  ultimately show ?thesis using assms(1,2,3) unfolding agree_rel_Fin by (simp add: field_simps)
qed

lemma agree_rel_scale:
  assumes "agree_rel (Fin a) (Fin b)" "0 < p"
  shows "agree_rel (Fin a * Fin p) (Fin b * Fin p)"
proof -
  have "\<bar>a * p - b * p\<bar> = \<bar>a - b\<bar> * p" using assms(2) by (simp add: abs_mult left_diff_distrib[symmetric])
  moreover have "\<bar>a * p\<bar> = \<bar>a\<bar> * p" "\<bar>b * p\<bar> = \<bar>b\<bar> * p" using assms(2) by (simp_all add: abs_mult)
  moreover have "\<bar>a - b\<bar> * p \<le> \<bar>a\<bar> / 10 ^ 6 * p" "\<bar>a - b\<bar> * p \<le> \<bar>b\<bar> / 10 ^ 6 * p"
    using assms unfolding agree_rel_Fin by (simp_all add: mult_right_mono)
  ultimately show ?thesis unfolding times_Float.simps agree_rel_Fin by simp
qed

lemma series_at_boundary:
  "calcValues_series (Fin (3 / 10)) =
     (Fin (434903953 / 87500000), Fin (1760473 / 35000), Fin (1812973 / 10500),
      Fin (186877659758053 / 39658784375000))"
  by (simp add: calcValues_series_def Let_def)

lemma agree_series_exact:
  "case (calcValues_series (Fin (3 / 10)), calcValues_exact (Fin (3 / 10))) of
     ((D1, E1, F1, Z1), (D2, E2, F2, Z2)) \<Rightarrow>
        agree_rel D1 D2 \<and> agree_rel E1 E2 \<and> agree_rel F1 F2 \<and> agree_rel Z1 Z2"
proof -
  define t :: real where "t = exp (- 2 * (3 / 10))"
  define u where "u = t * t"
  have t35: "t = exp (- (3 / 5))" by (simp add: t_def)
  have t: "54881163609 / 100000000000 \<le> t" "t \<le> 54881163610 / 100000000000"
    unfolding t35 by (rule exp_m35_bounds)+
  have u: "(54881163609 / 100000000000) * (54881163609 / 100000000000) \<le> u"
     "u \<le> (54881163610 / 100000000000) * (54881163610 / 100000000000)"
    unfolding u_def using t by (intro mult_mono; simp)+
  have D: "agree_rel (Fin (434903953 / 87500000)) 
      (Fin (3 / 4 * (1 - 4 * (3 / 10) * t - u) / (3 / 10 - 1 + 2 * t - (3 / 10 + 1) * u)))"
    by (rule agree_rel_frac) (use t u in \<open>simp add: algebra_simps add_divide_distrib diff_divide_distrib\<close>)+
  have E: "agree_rel (Fin (1760473 / 35000)) 
      (Fin (3 / 2 * (1 - t) / (3 / 10 - 1 + (3 / 10 + 1) * t)))"
    by (rule agree_rel_frac) (use t u in \<open>simp add: algebra_simps add_divide_distrib diff_divide_distrib\<close>)+
  have F: "agree_rel (Fin (1812973 / 10500)) 
      (Fin (3 / 2 * (1 + t) / (3 / 10 - 1 + (3 / 10 + 1) * t)))"
    by (rule agree_rel_frac) (use t u in \<open>simp add: algebra_simps add_divide_distrib diff_divide_distrib\<close>)+
  have Z: "agree_rel (Fin (186877659758053 / 39658784375000)) 
      (Fin (6 * t / (1 - u)))"
    by (rule agree_rel_frac) (use t u in \<open>simp add: algebra_simps add_divide_distrib diff_divide_distrib\<close>)+
  have "calcValues_exact (Fin (3 / 10)) = 
     (Fin (3 / 4 * (1 - 4 * (3 / 10) * t - u) / (3 / 10 - 1 + 2 * t - (3 / 10 + 1) * u)),
      Fin (3 / 2 * (1 - t) / (3 / 10 - 1 + (3 / 10 + 1) * t)),
      Fin (3 / 2 * (1 + t) / (3 / 10 - 1 + (3 / 10 + 1) * t)),
      Fin (6 * t / (1 - u)))"
    unfolding u_def t_def by (rule calcValues_exact_eq) simp
  then show ?thesis using D E F Z by (simp only: series_at_boundary prod.case) 
qed

lemma agree_rel_sym: "agree_rel a b \<Longrightarrow> agree_rel b a"
proof -
  have "\<bar>b - a\<bar> = \<bar>a - b\<bar>" by (cases a; cases b; simp)
  then show "agree_rel a b \<Longrightarrow> agree_rel b a" by (simp add: agree_rel_def)
qed

lemma agree_rel_refl_Fin: "agree_rel (Fin a) (Fin a)"
  by (simp add: agree_rel_Fin)

lemma agree_exact_asymptotic:
  "case (calcValues_exact (Fin 9), calcValues_asymptotic (Fin 9)) of
     ((D1, E1, F1, Z1), (D2, E2, F2, Z2)) \<Rightarrow>
        agree_rel D1 D2 \<and> agree_rel E1 E2 \<and> agree_rel F1 F2 \<and> agree_rel Z1 Z2"
proof -
  define t :: real where "t = exp (- 2 * 9)"
  define u where "u = t * t"
  have t18: "t = exp (- 18)" by (simp add: t_def)
  have t: "0 < t" "t \<le> 2 / 10 ^ 8"
    unfolding t18 by (rule exp_m18_bounds)+
  have u0: "0 < u" unfolding u_def using t by simp
  have u1: "u \<le> (2 / 10 ^ 8) * (2 / 10 ^ 8)"
    unfolding u_def using t by (intro mult_mono) simp_all
  note u = u0 u1
  have D: "agree_rel (Fin (3 / 32)) (Fin (3 / 4 * (1 - 4 * 9 * t - u) / (9 - 1 + 2 * t - (9 + 1) * u)))"
    by (rule agree_rel_frac) (use t u in \<open>simp add: algebra_simps add_divide_distrib diff_divide_distrib\<close>)+
  have E: "agree_rel (Fin (3 / 16)) (Fin (3 / 2 * (1 - t) / (9 - 1 + (9 + 1) * t)))"
    by (rule agree_rel_frac) (use t u in \<open>simp add: algebra_simps add_divide_distrib diff_divide_distrib\<close>)+
  have F: "agree_rel (Fin (3 / 16)) (Fin (3 / 2 * (1 + t) / (9 - 1 + (9 + 1) * t)))"
    by (rule agree_rel_frac) (use t u in \<open>simp add: algebra_simps add_divide_distrib diff_divide_distrib\<close>)+
  have ex: "calcValues_exact (Fin 9) =
     (Fin (3 / 4 * (1 - 4 * 9 * t - u) / (9 - 1 + 2 * t - (9 + 1) * u)),
      Fin (3 / 2 * (1 - t) / (9 - 1 + (9 + 1) * t)),
      Fin (3 / 2 * (1 + t) / (9 - 1 + (9 + 1) * t)),
      Fin (6 * t / (1 - u)))"
    unfolding u_def t_def by (rule calcValues_exact_eq) simp
  have asy: "calcValues_asymptotic (Fin 9) =
     (Fin (3 / 32), Fin (3 / 16), Fin (3 / 16), Fin (6 * t / (1 - u)))"
    unfolding u_def t_def using calcValues_asymptotic_eq[of 9] by simp
  show ?thesis
    using agree_rel_sym[OF D] agree_rel_sym[OF E] agree_rel_sym[OF F] agree_rel_refl_Fin
    by (simp only: ex asy prod.case)
qed

text \<open>
  C6. At \<open>ps = 0.3\<close> the series branch and the exact branch of \<^verbatim>\<open>calcValues\<close> agree within
  \<open>10\<^sup>-\<^sup>6\<close> relative error, and at \<open>ps = 9\<close> the exact branch and the asymptotic branch do,
  for each of \<open>C\<close> (computed before the branches), \<open>D\<close>, \<open>E\<close>, \<open>F\<close> and \<open>Z\<close>, where
  \<open>E\<close> and \<open>F\<close> carry the factors \<open>p\<close> and \<open>p\<^sup>2\<close> of the medium, \<open>p = 0.5 * mu * sigma_s > 0\<close>.
\<close>

theorem calcValues_branches_agree:
  assumes "0.5 * mu this * sigma_s this = Fin p" "0 < p"
  shows "(case (calcValues_series 0.3, calcValues_exact 0.3) of
            ((D1, E1, F1, Z1), (D2, E2, F2, Z2)) \<Rightarrow>
               agree_rel (3 / 0.3) (3 / 0.3) \<and> agree_rel D1 D2
               \<and> agree_rel (E1 * (0.5 * mu this * sigma_s this)) (E2 * (0.5 * mu this * sigma_s this))
               \<and> agree_rel (F1 * (0.5 * mu this * sigma_s this * (0.5 * mu this * sigma_s this)))
                            (F2 * (0.5 * mu this * sigma_s this * (0.5 * mu this * sigma_s this)))
               \<and> agree_rel Z1 Z2)
       \<and> (case (calcValues_exact 9, calcValues_asymptotic 9) of
            ((D1, E1, F1, Z1), (D2, E2, F2, Z2)) \<Rightarrow>
               agree_rel (3 / 9) (3 / 9) \<and> agree_rel D1 D2
               \<and> agree_rel (E1 * (0.5 * mu this * sigma_s this)) (E2 * (0.5 * mu this * sigma_s this))
               \<and> agree_rel (F1 * (0.5 * mu this * sigma_s this * (0.5 * mu this * sigma_s this)))
                            (F2 * (0.5 * mu this * sigma_s this * (0.5 * mu this * sigma_s this)))
               \<and> agree_rel Z1 Z2)"
proof -
  have pp: "0 < p * p" using assms(2) by simp
  have lit: "(0.3 :: Float) = Fin (3 / 10)" "(9 :: Float) = Fin 9" by simp_all
  have c: "agree_rel (3 / Fin (3 / 10)) (3 / Fin (3 / 10))" "agree_rel (3 / Fin 9) (3 / Fin 9)"
    by (simp_all add: agree_rel_Fin)
  obtain D1 E1 F1 Z1 where s: "calcValues_series (Fin (3 / 10)) = (Fin D1, Fin E1, Fin F1, Fin Z1)"
    using series_at_boundary by blast
  obtain D2 E2 F2 Z2 where e: "calcValues_exact (Fin (3 / 10)) = (Fin D2, Fin E2, Fin F2, Fin Z2)"
    using calcValues_exact_Fin[of "3 / 10"] by auto
  obtain D3 E3 F3 Z3 where e9: "calcValues_exact (Fin 9) = (Fin D3, Fin E3, Fin F3, Fin Z3)"
    using calcValues_exact_Fin[of 9] by auto
  obtain D4 E4 F4 Z4 where a9: "calcValues_asymptotic (Fin 9) = (Fin D4, Fin E4, Fin F4, Fin Z4)"
    using calcValues_asymptotic_Fin[of 9] by auto
  have A: "agree_rel (Fin D1) (Fin D2)" "agree_rel (Fin E1) (Fin E2)" "agree_rel (Fin F1) (Fin F2)"
    "agree_rel (Fin Z1) (Fin Z2)"
    using agree_series_exact unfolding s e by simp_all
  have B: "agree_rel (Fin D3) (Fin D4)" "agree_rel (Fin E3) (Fin E4)" "agree_rel (Fin F3) (Fin F4)"
    "agree_rel (Fin Z3) (Fin Z4)"
    using agree_exact_asymptotic unfolding e9 a9 by simp_all
  have ppF: "Fin p * Fin p = Fin (p * p)" by simp
  show ?thesis
    unfolding assms(1) lit s e e9 a9 prod.case ppF
    using c A B agree_rel_scale[OF A(2) assms(2)] agree_rel_scale[OF A(3) pp]
      agree_rel_scale[OF B(2) assms(2)] agree_rel_scale[OF B(3) pp]
    by simp
qed

theorem calcValues_branches_agree_witness:
  "0.5 * mu \<lparr>sigma_s = 1, sigma_a = 0, mu = 1, m_eta = 1\<rparr>
       * sigma_s \<lparr>sigma_s = 1, sigma_a = 0, mu = 1, m_eta = 1\<rparr> = Fin (1 / 2)
   \<and> (0 :: real) < 1 / 2
   \<and> (case (calcValues_series 0.3, calcValues_exact 0.3) of
            ((D1, E1, F1, Z1), (D2, E2, F2, Z2)) \<Rightarrow>
               agree_rel D1 D2 \<and> agree_rel (E1 * Fin (1 / 2)) (E2 * Fin (1 / 2)) \<and> agree_rel Z1 Z2)
   \<and> (case (calcValues_exact 9, calcValues_asymptotic 9) of
            ((D1, E1, F1, Z1), (D2, E2, F2, Z2)) \<Rightarrow>
               agree_rel D1 D2 \<and> agree_rel (E1 * Fin (1 / 2)) (E2 * Fin (1 / 2)) \<and> agree_rel Z1 Z2)"
proof -
  have h: "0.5 * mu \<lparr>sigma_s = 1, sigma_a = 0, mu = 1, m_eta = 1\<rparr>
       * sigma_s \<lparr>sigma_s = 1, sigma_a = 0, mu = 1, m_eta = 1\<rparr> = Fin (1 / 2)" by simp
  have p: "(0 :: real) < 1 / 2" by simp
  from calcValues_branches_agree[OF h p] show ?thesis
    unfolding h using p by (auto split: prod.splits)
qed

subsection \<open>The small-\<open>Z\<close> series of the normalisation constant\<close>

lemma exp_m10_bound: "exp (- 10 :: real) \<le> 1 / 9000"
proof -
  have "1 + 1 + 1\<^sup>2 / 2 \<le> exp (1 :: real)" by (rule exp_lower_Taylor_quadratic) simp
  then have "5 / 2 \<le> exp (1 :: real)" by simp
  then have "(5 / 2) ^ 10 \<le> exp (1 :: real) ^ 10" by (intro power_mono) simp_all
  also have "exp (1 :: real) ^ 10 = exp (of_nat 10 * 1)" by (rule exp_of_nat_mult[symmetric])
  also have "\<dots> = exp 10" by simp
  finally have "(5 / 2) ^ 10 \<le> exp (10 :: real)" .
  moreover have "(9000 :: real) \<le> (5 / 2) ^ 10" by (simp add: power_divide)
  ultimately have "9000 \<le> exp (10 :: real)" by linarith
  then have "1 / exp (10 :: real) \<le> 1 / 9000" by (intro divide_left_mono) simp_all
  then show ?thesis by (simp add: exp_minus')
qed

lemma ZoverExpMinOne_series_gap:
  fixes z :: real assumes "0 < z" "z < 2 / 1000"
  shows "Fin (1 + z / 2) < ZoverExpMinOne (Fin z)" "Fin z / (exp_fl (Fin z) - 1) < 1"
proof -
  have zz: "0 < z * z" "z * z < 1" using assms mult_strict_mono[of z 1 z 1] by simp_all
  have "z * z * (z * z) < 1 * (z * z)" using zz by (intro mult_strict_right_mono) simp_all
  then have "0 < 1 / 12 * z * z - 1 / 720 * z * z * z * z" using zz by (simp add: algebra_simps)
  then show "Fin (1 + z / 2) < ZoverExpMinOne (Fin z)"
    using assms by (simp add: ZoverExpMinOne_def)
  have "1 + z + z\<^sup>2 / 2 \<le> exp z" using assms by (intro exp_lower_Taylor_quadratic) simp
  moreover have "0 < z\<^sup>2 / 2" using assms by simp
  ultimately have e: "z < exp z - 1" by linarith
  then have "z / (exp z - 1) < 1" using assms by simp
  then show "Fin z / (exp_fl (Fin z) - 1) < 1" using e assms by simp
qed

text \<open>
  C5. The claim is that for \<open>Z < 0.002\<close> the polynomial evaluated by
  \<^verbatim>\<open>absorptionAndNormalizationConstant\<close> is the truncated Taylor expansion of
  \<open>Z / (exp Z - 1)\<close>, hence equal to the closed form up to the truncation error. The
  code does otherwise: for \<open>sigma_s = 1\<close>, \<open>mu = 1\<close> and length \<open>10\<close> (so \<open>ps = 5\<close>) the
  value \<open>Z\<close> of \<^verbatim>\<open>calcValues\<close> lies in \<open>(0, 0.002)\<close>, the series branch is taken, and its
  value exceeds \<open>1 + Z / 2\<close> while \<open>Z / (exp Z - 1)\<close> is below \<open>1\<close>: the two differ by
  more than \<open>Z / 2\<close>, because the linear term of the series has the sign of the expansion of
  \<open>Z / (1 - exp (- Z))\<close>.
\<close>

theorem ZoverExpMinOne_series_is_not_closed_form:
  "case calcValues \<lparr>sigma_s = 1, sigma_a = 0, mu = 1, m_eta = 1\<rparr> (Fin 10) of
     (C, D, E, F, Z) \<Rightarrow>
        0 < Z \<and> Z < 0.002 \<and> 1 + 0.5 * Z < ZoverExpMinOne Z \<and> Z / (exp_fl Z - 1) < 1"
proof -
  define t :: real where "t = exp (- 2 * 5)"
  define z where "z = 6 * t / (1 - t * t)"
  have t: "0 < t" "t \<le> 1 / 9000" using exp_m10_bound by (simp_all add: t_def)
  have tt: "t * t \<le> 1 / 9000 * (1 / 9000)" using t by (intro mult_mono) simp_all
  then have d: "99 / 100 \<le> 1 - t * t" by simp
  have z0: "0 < z" unfolding z_def using t d by simp
  have "z \<le> 6 * (1 / 9000) / (99 / 100)" unfolding z_def using t d by (intro frac_le) simp_all
  then have z1: "z < 2 / 1000" by simp
  have ex: "calcValues_exact (Fin 5) = (Fin (3 / 4 * (1 - 4 * 5 * t - t * t) / (5 - 1 + 2 * t - (5 + 1) * (t * t))),
      Fin (3 / 2 * (1 - t) / (5 - 1 + (5 + 1) * t)), Fin (3 / 2 * (1 + t) / (5 - 1 + (5 + 1) * t)), Fin z)"
    unfolding z_def t_def by (rule calcValues_exact_eq) simp
  have "calcValues \<lparr>sigma_s = 1, sigma_a = 0, mu = 1, m_eta = 1\<rparr> (Fin 10) =
     (Fin (3 / 5), Fin (3 / 4 * (1 - 4 * 5 * t - t * t) / (5 - 1 + 2 * t - (5 + 1) * (t * t))),
      Fin (3 / 2 * (1 - t) / (5 - 1 + (5 + 1) * t) * (1 / 2)), Fin (3 / 2 * (1 + t) / (5 - 1 + (5 + 1) * t) * (1 / 4)), Fin z)"
    by (simp add: calcValues_def Let_def ex)
  moreover have "1 + 0.5 * Fin z = Fin (1 + z / 2)" by simp
  ultimately show ?thesis using z0 z1 ZoverExpMinOne_series_gap[OF z0 z1] by simp
qed

subsection \<open>The real-source blending weight\<close>

text \<open>
  Whenever \<^verbatim>\<open>getTentativeIndexMatchedVirtualSourceDisp\<close> succeeds and the weight is
  requested, the weight is \<open>ratio / (ratio + 1)\<close> with
  \<open>ratio = exp (E * dot (R - R_virt) uL - F * (|R|\<^sup>2 - |R_virt|\<^sup>2))\<close> from the shape
  parameters at \<open>s\<close>, and it is exactly \<open>1\<close> when the ratio is infinite. For valid optical
  parameters, a finite \<open>s > 0\<close> and finite \<open>R\<close>, \<open>uL\<close> and \<open>R_virt\<close> it lies in
  \<open>[0, 1]\<close>, as the source asserts.
\<close>

lemma realSourceWeight_range:
  assumes ok: "getTentativeIndexMatchedVirtualSourceDisp this ext n0 nL uL R s tangentMode True
                 = Some (R_virt, n0_effective, w)"
  shows "\<exists>rw. w = Some rw \<and>
           (case calcValues this s of
              (C, D, E, F, Z) \<Rightarrow>
                 let ratio = exp_fl (E * dot (R - R_virt) uL
                                     - F * (lengthSquared R - lengthSquared R_virt))
                 in rw = (if isinf (ratio + 1) then 1 else ratio / (ratio + 1))
                    \<and> (isinf ratio \<longrightarrow> rw = 1)
                    \<and> (valid_optics this \<and> isfinite s \<and> 0 < s \<and> isFinite_v R
                           \<and> isFinite_v uL \<and> isFinite_v R_virt
                         \<longrightarrow> 0 \<le> rw \<and> rw \<le> 1))"
proof -
  obtain C D E F Z where cv: "calcValues this s = (C, D, E, F, Z)"
    by (cases "calcValues this s") auto
  define ratio where "ratio = exp_fl (E * dot (R - R_virt) uL
                                     - F * (lengthSquared R - lengthSquared R_virt))"
  define rw where "rw = (if isinf (ratio + 1) then 1 else ratio / (ratio + 1))"
  have w: "w = Some rw"
    using ok unfolding getTentativeIndexMatchedVirtualSourceDisp_def Let_def rw_def ratio_def
    by (auto split: option.splits prod.splits simp: cv)
  have inf: "rw = 1" if "isinf ratio"
    using that unfolding rw_def by (cases ratio) simp_all
  have rng: "0 \<le> rw \<and> rw \<le> 1"
    if v: "valid_optics this" and s: "isfinite s" "0 < s"
      and f: "isFinite_v R" "isFinite_v uL" "isFinite_v R_virt"
  proof -
    obtain m ss where o: "mu this = Fin m" "0 < m" "sigma_s this = Fin ss" "0 < ss"
      using v unfolding valid_optics_Fin by blast
    obtain s' where s': "s = Fin s'" "0 < s'" using s by (cases s) simp_all
    obtain C' D' E' F' Z' where "calcValues this (Fin s') = (Fin C', Fin D', Fin E', Fin F', Fin Z')"
      using calcValues_Fin[OF o s'(2)] by blast
    then have EF: "E = Fin E'" "F = Fin F'" using cv s' by simp_all
    obtain r1 r2 r3 u1 u2 u3 v1 v2 v3 where
      vec: "R = Vector (Fin r1) (Fin r2) (Fin r3)" "uL = Vector (Fin u1) (Fin u2) (Fin u3)"
        "R_virt = Vector (Fin v1) (Fin v2) (Fin v3)"
      using f unfolding isFinite_v_Fin by blast
    obtain x where "E * dot (R - R_virt) uL - F * (lengthSquared R - lengthSquared R_virt) = Fin x"
      unfolding EF vec by simp
    then have r: "ratio = Fin (exp x)" unfolding ratio_def by simp
    have "0 < exp x + 1" by (simp add: add_pos_pos)
    then have "rw = Fin (exp x / (exp x + 1))" unfolding rw_def r by simp
    moreover have "0 \<le> exp x / (exp x + 1)" "exp x / (exp x + 1) \<le> 1" by (simp_all add: add_pos_pos)
    ultimately show ?thesis by simp
  qed
  show ?thesis
    using w inf rng unfolding cv prod.case Let_def ratio_def[symmetric] rw_def[symmetric]
    by auto
qed

lemma example_tentative:
  "getVirtualDipoleSource example_medium example_collab (Vector (Fin 0) (Fin 0) (Fin 1)) u0
      (Vector (Fin 0) (Fin 0) (Fin 1)) (Vector (Fin 0) (Fin 0) (Fin 1))
      (Vector (Fin 0) (Fin 0) (Fin 0)) s False EUnmodifiedIncoming EClassicDiffusion
   = Some (u0 - smul (Fin 2 * dot (Vector (Fin 0) (Fin 0) (Fin 1)) u0) (Vector (Fin 0) (Fin 0) (Fin 1)),
           Vector (Fin 0) (Fin 0) (Fin (- (4 / 3))), Vector (Fin 0) (Fin 0) (Fin 1))"
  by (simp add: getVirtualDipoleSource_def example_medium_def example_collab_def Let_def)

lemma realSourceWeight_range_example:
  "(case getTentativeIndexMatchedVirtualSourceDisp example_medium example_collab
           (Vector 0 0 1) (Vector 0 0 1) (Vector 0 0 1) (Vector 0 0 0) (Fin 1)
           EUnmodifiedIncoming True of
      None \<Rightarrow> False
    | Some (R_virt, n0_effective, w) \<Rightarrow> (\<exists>rw. w = Some rw \<and> 0 \<le> rw \<and> rw \<le> 1))
   \<and> (case getTentativeIndexMatchedVirtualSourceDisp example_medium example_collab
           (Vector 0 0 1) (Vector 0 0 1) (Vector 0 0 1) (Vector 0 0 0) (Fin 0)
           EUnmodifiedIncoming True of
      None \<Rightarrow> False
    | Some (R_virt, n0_effective, w) \<Rightarrow> w = Some 1)"
proof -
  let ?g = "\<lambda>s. getTentativeIndexMatchedVirtualSourceDisp example_medium example_collab
           (Vector 0 0 1) (Vector 0 0 1) (Vector 0 0 1) (Vector 0 0 0) s
           EUnmodifiedIncoming True"
  have ex: "\<exists>w. ?g s = Some (Vector 0 0 (Fin (- (4 / 3))), Vector 0 0 1, w)" for s
    by (simp add: getTentativeIndexMatchedVirtualSourceDisp_def example_tentative Let_def
          split: prod.splits)
  have v: "valid_optics example_medium"
    by (simp add: valid_optics_def example_medium_def)
  obtain w1 where w1: "?g (Fin 1) = Some (Vector 0 0 (Fin (- (4 / 3))), Vector 0 0 1, w1)"
    using ex by blast
  have A: "\<exists>rw. w1 = Some rw \<and> 0 \<le> rw \<and> rw \<le> 1"
  proof -
    obtain C D E F Z where cv: "calcValues example_medium (Fin 1) = (C, D, E, F, Z)"
      by (cases "calcValues example_medium (Fin 1)") auto
    from realSourceWeight_range[OF w1] obtain rw where rw: "w1 = Some rw"
      and "valid_optics example_medium \<and> isfinite (Fin 1) \<and> 0 < Fin 1
             \<and> isFinite_v (Vector 0 0 0) \<and> isFinite_v (Vector 0 0 1)
             \<and> isFinite_v (Vector 0 0 (Fin (- (4 / 3)))) \<longrightarrow> 0 \<le> rw \<and> rw \<le> 1"
      unfolding cv prod.case Let_def by blast
    then show ?thesis using v by simp
  qed
  obtain w0 where w0: "?g (Fin 0) = Some (Vector 0 0 (Fin (- (4 / 3))), Vector 0 0 1, w0)"
    using ex by blast
  have cv0: "calcValues example_medium (Fin 0) = (PInf, PInf, PInf, PInf, NaN)"
    by (simp add: calcValues_def calcValues_series_def example_medium_def Let_def)
  have B: "w0 = Some 1"
  proof -
    from realSourceWeight_range[OF w0] obtain rw where rw: "w0 = Some rw"
      and "isinf (exp_fl (PInf * dot (Vector 0 0 0 - Vector 0 0 (Fin (- (4 / 3)))) (Vector 0 0 1)
                    - PInf * (lengthSquared (Vector 0 0 0)
                              - lengthSquared (Vector 0 0 (Fin (- (4 / 3))))))) \<longrightarrow> rw = 1"
      unfolding cv0 prod.case Let_def by blast
    then show ?thesis by simp
  qed
  show ?thesis unfolding w1 w0 using A B by simp
qed

text \<open>
  Claim C7 (the weight always lies in \<open>[0, 1]\<close>) fails on the code at the length \<open>s = 0\<close>,
  which the assertion \<^verbatim>\<open>length >= 0\<close> of \<^verbatim>\<open>calcValues\<close> admits. In the example medium, with
  entry normal \<open>(0, 0, 1)\<close>, exit normal and outgoing direction \<open>(0, 0, -1)\<close>, displacement
  \<open>R = (0, 0, -1)\<close> and the unmodified incoming tangent plane, the virtual displacement is
  \<open>(0, 0, -7/3)\<close>. At \<open>s = 0\<close> the shape parameters \<open>E\<close> and \<open>F\<close> are \<open>+\<infinity>\<close>, both terms of
  the exponent are \<open>-\<infinity>\<close>, their difference is NaN and so are the ratio and the weight:
  the assertion \<^verbatim>\<open>realSourceWeight >= 0 && realSourceWeight <= 1\<close> of the source is violated.
\<close>

theorem realSourceWeight_not_in_range_at_zero_length:
  "getTentativeIndexMatchedVirtualSourceDisp example_medium example_collab
     (Vector 0 0 1) (Vector 0 0 (- 1)) (Vector 0 0 (- 1)) (Vector 0 0 (- 1)) 0
     EUnmodifiedIncoming True
   = Some (Vector 0 0 (- 1 - 4 / 3), Vector 0 0 1, Some NaN)
   \<and> \<not> (0 \<le> NaN \<and> NaN \<le> (1 :: Float))"
proof -
  have cv: "calcValues example_medium (Fin 0) = (PInf, PInf, PInf, PInf, NaN)"
    by (simp add: calcValues_def calcValues_series_def example_medium_def Let_def)
  have gv: "getVirtualDipoleSource example_medium example_collab (Vector 0 0 1)
      (Vector NaN NaN NaN) (Vector 0 0 (- 1)) (Vector 0 0 (- 1)) (Vector 0 0 (- 1)) (Fin 0) False
      EUnmodifiedIncoming EClassicDiffusion
      = Some (Vector NaN NaN NaN, Vector 0 0 (- 1 - 4 / 3), Vector 0 0 1)"
    by (simp add: example_medium_def example_collab_def getVirtualDipoleSource_def Let_def)
  show ?thesis
    by (simp add: getTentativeIndexMatchedVirtualSourceDisp_def Let_def cv gv[simplified])
qed

subsection \<open>Rejection by the evaluator\<close>

text \<open>
  C3. \<^verbatim>\<open>evalDipole\<close> returns exactly \<open>0\<close> whenever the external entry direction does not
  point inward through the true entry normal (\<open>dot u0_external n0 \<ge> 0\<close>), and whenever
  refracting either external direction fails, that is, the refracted entry direction or
  the refracted exit direction is the zero vector.
\<close>

theorem evalDipole_rejects:
  assumes "dot u0_external n0 \<ge> 0
           \<or> isZero_v (fst (refract ext (- u0_external) n0 (m_eta this)))
           \<or> isZero_v (- fst (refract ext uL_external nL (m_eta this)))"
  shows "evalDipole this ext n0 u0_external nL uL_external R len rejectInternalIncoming
           reciprocal tangentMode zvMode useEffectiveBRDF dipoleMode = 0"
  using assms
  by (subst evalDipole.simps) (auto simp: Let_def split: prod.splits)

theorem evalDipole_rejects_witness:
  "dot (Vector 0 0 1) (Vector 0 0 1) \<ge> 0
   \<and> evalDipole example_medium example_collab (Vector 0 0 1) (Vector 0 0 1) (Vector 1 0 0)
         (Vector 1 0 0) (Vector 1 0 (- 1)) 1 False True EFrisvadEtAl EClassicDiffusion False
         ERealAndVirt = 0
   \<and> isZero_v (fst (refract (example_collab\<lparr>refract := \<lambda>wi n eta. (Vector 0 0 0, 1)\<rparr>)
                     (- Vector 0 0 (- 1)) (Vector 0 0 1) (m_eta example_medium)))
   \<and> evalDipole example_medium (example_collab\<lparr>refract := \<lambda>wi n eta. (Vector 0 0 0, 1)\<rparr>)
         (Vector 0 0 1) (Vector 0 0 (- 1)) (Vector 1 0 0)
         (Vector 1 0 0) (Vector 1 0 (- 1)) 1 False True EFrisvadEtAl EClassicDiffusion False
         ERealAndVirt = 0"
proof -
  have a: "dot (Vector 0 0 1) (Vector 0 0 1) \<ge> 0" by simp
  have b: "isZero_v (fst (refract (example_collab\<lparr>refract := \<lambda>wi n eta. (Vector 0 0 0, 1)\<rparr>)
                     (- Vector 0 0 (- 1)) (Vector 0 0 1) (m_eta example_medium)))"
    by simp
  have c: "evalDipole example_medium example_collab (Vector 0 0 1) (Vector 0 0 1) (Vector 1 0 0)
         (Vector 1 0 0) (Vector 1 0 (- 1)) 1 False True EFrisvadEtAl EClassicDiffusion False
         ERealAndVirt = 0"
    by (rule evalDipole_rejects) (use a in blast)
  have d: "evalDipole example_medium (example_collab\<lparr>refract := \<lambda>wi n eta. (Vector 0 0 0, 1)\<rparr>)
         (Vector 0 0 1) (Vector 0 0 (- 1)) (Vector 1 0 0)
         (Vector 1 0 0) (Vector 1 0 (- 1)) 1 False True EFrisvadEtAl EClassicDiffusion False
         ERealAndVirt = 0"
    by (rule evalDipole_rejects) (use b in blast)
  show ?thesis using a b c d by blast
qed

subsection \<open>Short-limit strategy at zero displacement\<close>

lemma shortLimit_zero_r:
  assumes "length_v R = 0" "isfinite (sigma_s this)" "isfinite (mu this)"
  shows "implLengthShortLimitKnownU0 this ext R u0 uL s (Some sampler) = Some (0, 0, Some sampler)
       \<and> implLengthShortLimitKnownU0 this ext R u0 uL s None = Some (0, s, None)
       \<and> implLengthShortLimitMargOverU0_internal this ext R uL s (Some sampler) safetyFac
           = Some (0, 0, Some sampler)
       \<and> implLengthShortLimitMargOverU0_internal this ext R uL s None safetyFac = Some (0, s, None)
       \<and> (\<exists>sampler'. sampleLengthShortLimit this ext R u0' uL s sampler = Some (0, 0, sampler'))
       \<and> pdfLengthShortLimit this ext R u0' uL s = Some 0"
proof -
  obtain p where p: "0.5 * sigma_s this * mu this = Fin p" using finite_p[OF assms(2,3)] by blast
  have r: "length_v R * (0.5 * sigma_s this * mu this) = 0" unfolding p assms(1) by simp
  have k: "implLengthShortLimitKnownU0 this ext R u0 uL s smp
             = Some (0, if smp \<noteq> None then 0 else s, smp)" for smp u0 s
    unfolding implLengthShortLimitKnownU0_def Let_def using r by simp
  have m: "implLengthShortLimitMargOverU0_internal this ext R uL s smp fac
             = Some (0, if smp \<noteq> None then 0 else s, smp)" for smp fac s
    unfolding implLengthShortLimitMargOverU0_internal_def Let_def using r by simp
  have mo: "implLengthShortLimitMargOverU0 this ext R uL s smp
             = Some (0, if smp \<noteq> None then 0 else s, case smp of None \<Rightarrow> None | Some x \<Rightarrow> Some (stl x))" for smp
    unfolding implLengthShortLimitMargOverU0_def Let_def m
    by (cases smp) (simp_all add: next1D_def)
  show ?thesis
    by (cases u0') (simp_all add: k m mo sampleLengthShortLimit_def pdfLengthShortLimit_def
        implLengthShortLimit_def)
qed

text \<open>
  C10. For every input with \<open>|R| = 0\<close> (and finite \<open>sigma_s\<close> and \<open>mu\<close>, so that
  \<open>r = |R| * p = 0\<close>) the known-entry-direction variant and the variant marginalised over
  \<open>u0\<close> both return pdf \<open>0\<close>, and set \<open>s = 0\<close> when sampling; so do
  \<^verbatim>\<open>sampleLengthShortLimit\<close> and \<^verbatim>\<open>pdfLengthShortLimit\<close>, with or without an entry
  direction.
\<close>

theorem shortLimit_zero_displacement:
  assumes "length_v R = 0" "isfinite (sigma_s this)" "isfinite (mu this)"
  shows "implLengthShortLimitKnownU0 this ext R u0 uL s (Some sampler) = Some (0, 0, Some sampler)
       \<and> implLengthShortLimitKnownU0 this ext R u0 uL s None = Some (0, s, None)
       \<and> implLengthShortLimitMargOverU0_internal this ext R uL s (Some sampler) safetyFac
           = Some (0, 0, Some sampler)
       \<and> implLengthShortLimitMargOverU0_internal this ext R uL s None safetyFac = Some (0, s, None)
       \<and> (\<exists>sampler'. sampleLengthShortLimit this ext R u0' uL s sampler = Some (0, 0, sampler'))
       \<and> pdfLengthShortLimit this ext R u0' uL s = Some 0"
  by (rule shortLimit_zero_r[OF assms])

theorem shortLimit_zero_displacement_witness:
  "length_v (Vector 0 0 0) = 0 \<and> isfinite (sigma_s example_medium) \<and> isfinite (mu example_medium)
   \<and> implLengthShortLimitKnownU0 example_medium example_collab (Vector 0 0 0) (Vector 0 0 (- 1))
        (Vector 0 0 1) 5 (Some (sconst (1 / 2))) = Some (0, 0, Some (sconst (1 / 2)))
   \<and> pdfLengthShortLimit example_medium example_collab (Vector 0 0 0) None (Vector 0 0 1) 5 = Some 0"
proof -
  have a: "length_v (Vector 0 0 0) = 0" by (simp add: length_v_def)
  have b: "isfinite (sigma_s example_medium)" "isfinite (mu example_medium)"
    by (simp_all add: example_medium_def)
  show ?thesis using a b shortLimit_zero_displacement[OF a b] by blast
qed

subsection \<open>The root search of the long-limit sampler\<close>

lemma expand_finite:
  assumes "10000 * 1000 / A = Fin b" "b \<le> 3 ^ n * h"
  shows "\<exists>k\<le>n. sampleLengthLongLimit_expand target A (Fin h)
                 = Some (((\<lambda>x. x * 3) ^^ k) (Fin h))"
  using assms(2)
proof (induction n arbitrary: h)
  case 0
  then have "\<not> Fin h < 10000 * 1000 / A" unfolding assms(1) by simp
  then have "sampleLengthLongLimit_expand target A (Fin h) = Some (Fin h)"
    by (subst sampleLengthLongLimit_expand.simps) simp
  then show ?case by simp
next
  case (Suc n)
  show ?case
  proof (cases "target (Fin h) < 0 \<and> Fin h < 10000 * 1000 / A")
    case True
    have "b \<le> 3 ^ n * (h * 3)" using Suc.prems by (simp add: algebra_simps)
    from Suc.IH[OF this] obtain k where k: "k \<le> n"
      "sampleLengthLongLimit_expand target A (Fin (h * 3)) = Some (((\<lambda>x. x * 3) ^^ k) (Fin (h * 3)))"
      by blast
    have "sampleLengthLongLimit_expand target A (Fin h)
            = sampleLengthLongLimit_expand target A (Fin h * 3)"
      using True by (subst sampleLengthLongLimit_expand.simps) simp
    also have "\<dots> = Some (((\<lambda>x. x * 3) ^^ Suc k) (Fin h))"
    proof -
      have "((\<lambda>x. x * 3) ^^ Suc k) (Fin h) = ((\<lambda>x. x * 3) ^^ k) (Fin h * 3)"
        by (simp only: funpow_Suc_right o_apply)
      then show ?thesis using k(2) by simp
    qed
    finally show ?thesis using k(1) by (intro exI[of _ "Suc k"]) simp
  next
    case False
    then have "sampleLengthLongLimit_expand target A (Fin h) = Some (Fin h)"
      by (subst sampleLengthLongLimit_expand.simps) auto
    then show ?thesis by (intro exI[of _ 0]) simp
  qed
qed

lemma expand_terminates:
  "\<exists>k\<le>9. sampleLengthLongLimit_expand target A (1000 / A)
            = Some (((\<lambda>x. x * 3) ^^ k) (1000 / A))"
proof -
  have stop: "\<exists>k\<le>9. sampleLengthLongLimit_expand target A (1000 / A)
            = Some (((\<lambda>x. x * 3) ^^ k) (1000 / A))"
    if "\<not> 1000 / A < 10000 * 1000 / A"
  proof -
    have "sampleLengthLongLimit_expand target A (1000 / A) = Some (1000 / A)"
      using that by (subst sampleLengthLongLimit_expand.simps) auto
    then show ?thesis by (intro exI[of _ 0]) simp
  qed
  show ?thesis
  proof (cases A)
    case (Fin a)
    show ?thesis
    proof (cases "0 < a")
      case True
      have b: "10000 * 1000 / A = Fin (10000000 / a)" and h: "1000 / A = Fin (1000 / a)"
        using True Fin by simp_all
      have "10000000 / a \<le> 3 ^ 9 * (1000 / a)" using True by (simp add: field_simps)
      from expand_finite[OF b this] show ?thesis unfolding h .
    next
      case False
      then have "\<not> 1000 / A < 10000 * 1000 / A" using Fin by (auto simp: field_simps)
      then show ?thesis by (rule stop)
    qed
  next
    case PInf
    show ?thesis by (rule stop) (simp add: PInf)
  next
    case NInf
    show ?thesis by (rule stop) (simp add: NInf)
  next
    case NaN
    show ?thesis by (rule stop) (simp add: NaN)
  qed
qed

text \<open>
  C8. \<^verbatim>\<open>sampleLengthLongLimit\<close> always returns. The bracket expansion triples \<open>hi\<close> only
  while \<open>hi < 1e4 * 1000 / A\<close>, hence at most nine times from \<open>1000 / A\<close>, for every value
  of \<open>A\<close>; the solver is called with the iteration cap \<open>1000\<close>. When the root search is
  reached (\<open>p \<noteq> 0\<close> and \<open>beta > 0\<close>), each failure mode returns \<open>0\<close>: a target value at
  \<open>lo\<close> that is not finite or positive, a target value at \<open>hi\<close> that is not finite, a root
  that is not bracketed after the expansion, an exception from the solver, and a length
  that is not finite.
\<close>

theorem sampleLengthLongLimit_bounded:
  "(\<exists>r. sampleLengthLongLimit this ext R uL s sampler = Some r)
   \<and> (let p = 0.5 * sigma_s this * mu this;
           beta = 3 / 2 * (lengthSquared (vscale R p) - dot (vscale R p) uL);
           A = sigma_a this / p;
           target = sampleLengthLongLimit_target ext (sqrt_fl A) (sqrt_fl beta)
                      (exp_fl (4 * sqrt_fl A * sqrt_fl beta)) (fst (next1D sampler))
       in \<exists>k hi. k \<le> 9 \<and> hi = ((\<lambda>h. h * 3) ^^ k) (1000 / A)
            \<and> sampleLengthLongLimit_expand target A (1000 / A) = Some hi
            \<and> (p \<noteq> 0 \<and> \<not> beta \<le> 0
                 \<and> (\<not> isfinite (target 0) \<or> target 0 > 0
                     \<or> \<not> isfinite (target (1000 / A))
                     \<or> \<not> isfinite (target hi) \<or> target hi < 0
                     \<or> toms748_solve ext target 0 hi 1000 = None
                     \<or> (\<exists>a b. toms748_solve ext target 0 hi 1000 = Some (a, b)
                               \<and> \<not> isfinite (0.5 * (a + b) / p)))
               \<longrightarrow> (\<exists>s' sampler'. sampleLengthLongLimit this ext R uL s sampler
                                      = Some (0, s', sampler'))))"
proof -
  define p where "p = 0.5 * sigma_s this * mu this"
  define beta where "beta = 3 / 2 * (lengthSquared (vscale R p) - dot (vscale R p) uL)"
  define A where "A = sigma_a this / p"
  define target where "target = sampleLengthLongLimit_target ext (sqrt_fl A) (sqrt_fl beta)
                      (exp_fl (4 * sqrt_fl A * sqrt_fl beta)) (fst (next1D sampler))"
  obtain k where k: "k \<le> 9" and
    ex: "sampleLengthLongLimit_expand target A (1000 / A) = Some (((\<lambda>x. x * 3) ^^ k) (1000 / A))"
    using expand_terminates by blast
  define hi where "hi = ((\<lambda>x. x * 3) ^^ k) (1000 / A)"
  have unf: "sampleLengthLongLimit this ext R uL s sampler =
     (if p = 0 then Some (0, s, sampler)
      else if beta \<le> 0 then Some (sampleLengthAbsorption this s sampler)
      else if \<not> isfinite (target 0) \<or> target 0 > 0 then Some (0, s, snd (next1D sampler))
      else if \<not> isfinite (target (1000 / A)) then Some (0, s, snd (next1D sampler))
      else if \<not> isfinite (target hi) \<or> target hi < 0 then Some (0, s, snd (next1D sampler))
      else (case toms748_solve ext target 0 hi 1000 of
              None \<Rightarrow> Some (0, s, snd (next1D sampler))
            | Some (a, b) \<Rightarrow>
                if \<not> isfinite (0.5 * (a + b) / p) then Some (0, 0.5 * (a + b) / p, snd (next1D sampler))
                else Some (pdfLengthLongLimit this R uL (0.5 * (a + b) / p), 0.5 * (a + b) / p,
                           snd (next1D sampler))))"
    unfolding sampleLengthLongLimit_def Let_def p_def[symmetric] beta_def[symmetric]
    by (simp add: A_def[symmetric] split_beta target_def[symmetric] beta_def[symmetric] ex
          hi_def[symmetric] del: Float_consts Float_numeral)
  have "sampleLengthLongLimit this ext R uL s sampler \<noteq> None"
    unfolding unf
    by (cases "toms748_solve ext target 0 hi 1000")
       (simp_all add: split_beta del: not_None_eq split_paired_Ex)
  then have 1: "\<exists>r. sampleLengthLongLimit this ext R uL s sampler = Some r" by blast
  have 2: "\<exists>s' sampler'. sampleLengthLongLimit this ext R uL s sampler = Some (0, s', sampler')"
    if "p \<noteq> 0" "\<not> beta \<le> 0"
      "\<not> isfinite (target 0) \<or> target 0 > 0
                     \<or> \<not> isfinite (target (1000 / A))
                     \<or> \<not> isfinite (target hi) \<or> target hi < 0
                     \<or> toms748_solve ext target 0 hi 1000 = None
                     \<or> (\<exists>a b. toms748_solve ext target 0 hi 1000 = Some (a, b)
                               \<and> \<not> isfinite (0.5 * (a + b) / p))"
  proof -
    have t: "sampleLengthLongLimit this ext R uL s sampler =
      (if \<not> isfinite (target 0) \<or> target 0 > 0 then Some (0, s, snd (next1D sampler))
      else if \<not> isfinite (target (1000 / A)) then Some (0, s, snd (next1D sampler))
      else if \<not> isfinite (target hi) \<or> target hi < 0 then Some (0, s, snd (next1D sampler))
      else (case toms748_solve ext target 0 hi 1000 of
              None \<Rightarrow> Some (0, s, snd (next1D sampler))
            | Some (a, b) \<Rightarrow>
                if \<not> isfinite (0.5 * (a + b) / p) then Some (0, 0.5 * (a + b) / p, snd (next1D sampler))
                else Some (pdfLengthLongLimit this R uL (0.5 * (a + b) / p), 0.5 * (a + b) / p,
                           snd (next1D sampler))))"
      unfolding unf using that(1,2) by (simp only: if_False)
    show ?thesis
    proof (cases "toms748_solve ext target 0 hi 1000")
      case None
      show ?thesis unfolding t None by (simp only: option.case if_cancel) blast
    next
      case (Some ab)
      obtain a b where ab: "ab = (a, b)" by (cases ab)
      show ?thesis
      proof (cases "isfinite (0.5 * (a + b) / p)")
        case True
        with that(3) Some ab have "\<not> isfinite (target 0) \<or> target 0 > 0
                     \<or> \<not> isfinite (target (1000 / A))
                     \<or> \<not> isfinite (target hi) \<or> target hi < 0" by auto
        then show ?thesis unfolding t by (auto simp only: if_True if_False split: if_splits)
      next
        case False
        show ?thesis unfolding t Some ab using False
          by (simp only: option.case prod.case if_True if_cancel split: if_splits) blast
      qed
    qed
  qed
  have 3: "k \<le> 9 \<and> hi = ((\<lambda>h. h * 3) ^^ k) (1000 / A)
            \<and> sampleLengthLongLimit_expand target A (1000 / A) = Some hi
            \<and> (p \<noteq> 0 \<and> \<not> beta \<le> 0
                 \<and> (\<not> isfinite (target 0) \<or> target 0 > 0
                     \<or> \<not> isfinite (target (1000 / A))
                     \<or> \<not> isfinite (target hi) \<or> target hi < 0
                     \<or> toms748_solve ext target 0 hi 1000 = None
                     \<or> (\<exists>a b. toms748_solve ext target 0 hi 1000 = Some (a, b)
                               \<and> \<not> isfinite (0.5 * (a + b) / p)))
               \<longrightarrow> (\<exists>s' sampler'. sampleLengthLongLimit this ext R uL s sampler
                                      = Some (0, s', sampler')))"
    using k ex 2 unfolding hi_def[symmetric] by (intro conjI impI) (assumption | rule refl | blast)+
  show ?thesis
    unfolding Let_def p_def[symmetric] beta_def[symmetric] A_def[symmetric] target_def[symmetric]
    by (rule conjI[OF 1], rule exI[of _ k], rule exI[of _ hi], rule 3)
qed

theorem sampleLengthLongLimit_bounded_witness:
  "0.5 * sigma_s example_medium * mu example_medium \<noteq> 0
   \<and> \<not> 3 / 2 * (lengthSquared (vscale (Vector 1 0 0) (0.5 * sigma_s example_medium * mu example_medium))
                 - dot (vscale (Vector 1 0 0) (0.5 * sigma_s example_medium * mu example_medium))
                     (Vector 0 0 1)) \<le> 0
   \<and> (\<forall>target hi. toms748_solve example_collab target 0 hi 1000 = None)
   \<and> (\<exists>s' sampler'. sampleLengthLongLimit example_medium example_collab (Vector 1 0 0)
          (Vector 0 0 1) 5 (sconst (1 / 2)) = Some (0, s', sampler'))"
proof -
  have a: "0.5 * sigma_s example_medium * mu example_medium \<noteq> 0"
    by (simp add: example_medium_def)
  have b: "\<not> 3 / 2 * (lengthSquared (vscale (Vector 1 0 0) (0.5 * sigma_s example_medium * mu example_medium))
                 - dot (vscale (Vector 1 0 0) (0.5 * sigma_s example_medium * mu example_medium))
                     (Vector 0 0 1)) \<le> 0"
    by (simp add: example_medium_def vscale_def)
  have c: "toms748_solve example_collab target 0 hi 1000 = None" for target hi
    by (simp add: example_collab_def)
  have "\<exists>s' sampler'. sampleLengthLongLimit example_medium example_collab (Vector 1 0 0)
          (Vector 0 0 1) 5 (sconst (1 / 2)) = Some (0, s', sampler')"
    using sampleLengthLongLimit_bounded[of example_medium example_collab "Vector 1 0 0"
        "Vector 0 0 1" 5 "sconst (1 / 2)"] a b c
    unfolding Let_def by blast
  then show ?thesis using a b c by blast
qed

subsection \<open>Sample/pdf consistency of the length mixture\<close>

lemma Float_add_commute: "(a :: Float) + b = b + a"
  by (cases a; cases b) simp_all

lemma truncnorm_nonzero_result:
  assumes "truncnorm_nonzero ext mean stddev smp = Some y"
  shows "fst y \<noteq> 0 \<and> (\<exists>smp0. y = truncnorm ext mean stddev 0 PInf smp0)"
proof (rule truncnorm_nonzero.raw_induct[where P = "\<lambda>ext mean stddev smp y.
          fst y \<noteq> 0 \<and> (\<exists>smp0. y = truncnorm ext mean stddev 0 PInf smp0)", OF _ assms])
  fix f ext mean stddev sampler y
  assume IH: "\<And>e m sd smp y. f e m sd smp = Some y \<Longrightarrow>
            fst y \<noteq> 0 \<and> (\<exists>smp0. y = truncnorm e m sd 0 PInf smp0)"
    and eq: "(let r = truncnorm ext mean stddev 0.0 PInf sampler
              in if fst r = 0 then f ext mean stddev (snd r) else Some r) = Some y"
  show "fst y \<noteq> 0 \<and> (\<exists>smp0. y = truncnorm ext mean stddev 0 PInf smp0)"
  proof (cases "fst (truncnorm ext mean stddev 0 PInf sampler) = 0")
    case True
    then have "f ext mean stddev (snd (truncnorm ext mean stddev 0 PInf sampler)) = Some y"
      using eq by (simp add: Let_def)
    then show ?thesis by (rule IH)
  next
    case False
    then have "y = truncnorm ext mean stddev 0 PInf sampler"
      using eq by (simp add: Let_def)
    then show ?thesis using False by auto
  qed
qed

lemma ps_roundtrip:
  assumes "0 < p"
  shows "Fin p * (ps / Fin p) = ps" "ps / Fin p * Fin p = ps"
  using assms by (cases ps; simp)+

lemma t_roundtrip_cubic:
  assumes "0 \<le> t" "t \<noteq> 0"
  shows "1 / (pow_fl t (- 1 / 3) * pow_fl t (- 1 / 3) * pow_fl t (- 1 / 3)) = t"
proof (cases t)
  case (Fin a)
  then have a: "0 < a" using assms by simp
  have "a powr (- (1 / 3)) * a powr (- (1 / 3)) * a powr (- (1 / 3)) = a powr (- 1)"
    by (simp add: powr_add[symmetric])
  also have "\<dots> = 1 / a" using a by (simp add: powr_minus_divide)
  finally have e: "a powr (- (1 / 3)) * a powr (- (1 / 3)) * a powr (- (1 / 3)) = 1 / a" .
  show ?thesis using a unfolding Fin by (simp add: e)
qed (use assms in simp_all)

lemma t_roundtrip_52:
  assumes "0 \<le> t" "t \<noteq> 0"
  shows "pow_fl (pow_fl t (- 2 / 5)) (- 5 / 2) = t"
proof (cases t)
  case (Fin a)
  then have a: "0 < a" using assms by simp
  have "(a powr (- 2 / 5)) powr (- 5 / 2) = a powr 1" by (simp add: powr_powr)
  then show ?thesis using a unfolding Fin by simp
qed (use assms in simp_all)

lemma KnownU0_consistent:
  assumes p: "0.5 * sigma_s this * mu this = Fin p" "0 < p"
    and tn: "\<And>mean stddev smp. 0 \<le> fst (truncnorm ext mean stddev 0 PInf smp)"
    and smp: "implLengthShortLimitKnownU0 this ext R u0 uL s0 (Some smp) = Some (pdf, s, smp')"
  shows "implLengthShortLimitKnownU0 this ext R u0 uL s None = Some (pdf, s, None)"
proof (cases "length_v R * Fin p = 0")
  case True
  then show ?thesis using smp
    unfolding implLengthShortLimitKnownU0_def Let_def p(1) by simp
next
  case False
  obtain mean stddev where fit: "knownU0_fit (length_v R * Fin p)
      (clamp (dot R u0 / length_v R) (- 1.0) 1.0 + clamp (dot R uL / length_v R) (- 1.0) 1.0)
      (dot u0 uL) = (mean, stddev)"
    by (cases "knownU0_fit (length_v R * Fin p)
      (clamp (dot R u0 / length_v R) (- 1.0) 1.0 + clamp (dot R uL / length_v R) (- 1.0) 1.0)
      (dot u0 uL)") auto
  from smp obtain t smp1 where tr: "truncnorm_nonzero ext mean stddev smp = Some (t, smp1)"
    and res: "pdf = truncnormPdf ext mean stddev 0.0 PInf t * 3
                 / (pow_fl t (- 1 / 3) * pow_fl t (- 1 / 3) * pow_fl t (- 1 / 3) * pow_fl t (- 1 / 3)) * Fin p"
      "s = pow_fl t (- 1 / 3) / Fin p"
    unfolding implLengthShortLimitKnownU0_def Let_def p(1) fit prod.case using False
    by (auto split: option.splits simp del: Float_consts Float_numeral)
  have t: "0 \<le> t" "t \<noteq> 0"
  proof -
    from truncnorm_nonzero_result[OF tr] obtain smp0
      where "t \<noteq> 0" "(t, smp1) = truncnorm ext mean stddev 0 PInf smp0" by auto
    then show "t \<noteq> 0" "0 \<le> t" using tn[of mean stddev smp0] by (simp_all add: fst_def split: prod.splits) 
  qed
  have ps: "Fin p * s = pow_fl t (- 1 / 3)" unfolding res(2) by (rule ps_roundtrip[OF p(2)])
  have tt: "1 / (Fin p * s * (Fin p * s) * (Fin p * s)) = t"
    unfolding ps by (rule t_roundtrip_cubic[OF t])
  show ?thesis
    unfolding implLengthShortLimitKnownU0_def Let_def p(1) fit prod.case using False
    by (simp add: ps t_roundtrip_cubic[OF t, simplified] res(1))
qed

lemma internal_consistent:
  assumes p: "0.5 * sigma_s this * mu this = Fin p" "0 < p"
    and tn: "\<And>mean stddev smp. 0 \<le> fst (truncnorm ext mean stddev 0 PInf smp)"
    and smp: "implLengthShortLimitMargOverU0_internal this ext R uL s0 (Some smp) fac
                = Some (pdf, s, smp')"
  shows "implLengthShortLimitMargOverU0_internal this ext R uL s None fac = Some (pdf, s, None)"
proof (cases "length_v R * Fin p = 0")
  case True
  then show ?thesis using smp
    unfolding implLengthShortLimitMargOverU0_internal_def Let_def p(1) by simp
next
  case False
  obtain w0 t_mean t_stddev where fit: "margOverU0_fit (length_v R * Fin p)
      (length_v R * Fin p * (length_v R * Fin p))
      (clamp (dot R uL / length_v R) (- 1) 1) fac = (w0, t_mean, t_stddev)"
    by (cases "margOverU0_fit (length_v R * Fin p)
      (length_v R * Fin p * (length_v R * Fin p))
      (clamp (dot R uL / length_v R) (- 1) 1) fac") auto
  define w where "w = (if t_mean / t_stddev < meanTailCutoff ext then 1 else w0)"
  define finish where "finish = (\<lambda>ps t (s :: Float) (sampler :: Sampler option).
                 let tPdf = (if w = 1 then 0
                             else truncnormPdf ext t_mean t_stddev 0.0 PInf t);
                     unifPdf = (if ps < 2 then 1.0 / 2 else 0);
                     psPdf = w * unifPdf
                           + (1 - w) * tPdf * 5.0 / 2.0 * pow_fl ps (- 7 / 2)
                 in Some (psPdf * Fin p, s, sampler))"
  have unf: "implLengthShortLimitMargOverU0_internal this ext R uL s1 sampler fac =
     (case sampler of
                Some smp \<Rightarrow>
                  let (uniform, smp1) =
                        (if w = 1 then (True, smp)
                         else let (x, smp') = next1D smp in (x < w, smp'))
                  in if uniform then
                       let (y, smp2) = next1D smp1;
                           ps = 2 * y;
                           t = pow_fl ps (- 5 / 2)
                       in finish ps t (ps / Fin p) (Some smp2)
                     else
                       (case truncnorm_nonzero ext t_mean t_stddev smp1 of
                          None \<Rightarrow> None
                        | Some (t, smp2) \<Rightarrow>
                            let ps = pow_fl t (- 2 / 5)
                            in finish ps t (ps / Fin p) (Some smp2))
              | None \<Rightarrow>
                  let ps = s1 * Fin p;
                      t = pow_fl ps (- 5 / 2)
                  in finish ps t s1 None)" for s1 sampler
    unfolding implLengthShortLimitMargOverU0_internal_def Let_def p(1) fit prod.case
      w_def finish_def
    using False by (simp only: if_False)
  have fin: "finish ps t (ps / Fin p) (Some x) = Some (pdf, s, smp')
     \<Longrightarrow> finish ps t s None = Some (pdf, s, None)" for ps t x
    unfolding finish_def Let_def by auto
  show ?thesis
  proof (cases "fst (if w = 1 then (True, smp)
                         else let (x, smp') = next1D smp in (x < w, smp'))")
    case True
    then obtain ps x where a: "finish ps (pow_fl ps (- 5 / 2)) (ps / Fin p) (Some x) = Some (pdf, s, smp')"
      using smp unfolding unf by (auto simp: Let_def split_beta split: if_splits)
    then have s: "s = ps / Fin p" unfolding finish_def Let_def by simp
    have ps: "s * Fin p = ps" unfolding s by (rule ps_roundtrip[OF p(2)])
    show ?thesis unfolding unf option.case Let_def ps using fin[OF a] .
  next
    case False
    then obtain t smp1 smp2 where tr: "truncnorm_nonzero ext t_mean t_stddev smp1 = Some (t, smp2)"
      and a: "finish (pow_fl t (- 2 / 5)) t (pow_fl t (- 2 / 5) / Fin p) (Some smp2) = Some (pdf, s, smp')"
      using smp unfolding unf
      by (auto simp: Let_def split_beta split: if_splits option.splits)
    have t: "0 \<le> t" "t \<noteq> 0"
    proof -
      from truncnorm_nonzero_result[OF tr] obtain smp0
        where "t \<noteq> 0" "(t, smp2) = truncnorm ext t_mean t_stddev 0 PInf smp0" by auto
      then show "t \<noteq> 0" "0 \<le> t" using tn[of t_mean t_stddev smp0]
        by (simp_all add: fst_def split: prod.splits)
    qed
    have s: "s = pow_fl t (- 2 / 5) / Fin p" using a unfolding finish_def Let_def by simp
    have ps: "s * Fin p = pow_fl t (- 2 / 5)" unfolding s by (rule ps_roundtrip[OF p(2)])
    show ?thesis unfolding unf option.case Let_def ps t_roundtrip_52[OF t] using fin[OF a] .
  qed
qed

lemma internal_pdf_mode:
  "\<exists>pdf. implLengthShortLimitMargOverU0_internal this ext R uL s None fac = Some (pdf, s, None)"
  unfolding implLengthShortLimitMargOverU0_internal_def Let_def
  by (simp add: split_beta)

lemma KnownU0_pdf_mode:
  "\<exists>pdf. implLengthShortLimitKnownU0 this ext R u0 uL s None = Some (pdf, s, None)"
  unfolding implLengthShortLimitKnownU0_def Let_def
  by (simp add: split_beta)

lemma MargOverU0_consistent:
  assumes p: "0.5 * sigma_s this * mu this = Fin p" "0 < p"
    and tn: "\<And>mean stddev smp. 0 \<le> fst (truncnorm ext mean stddev 0 PInf smp)"
    and smp: "implLengthShortLimitMargOverU0 this ext R uL s0 (Some smp) = Some (pdf, s, smp')"
  shows "implLengthShortLimitMargOverU0 this ext R uL s None = Some (pdf, s, None)"
proof -
  let ?I = "implLengthShortLimitMargOverU0_internal this ext R uL"
  obtain pO where pO: "?I s None 1.0 = Some (pO, s, None)" using internal_pdf_mode by blast
  obtain pS where pS: "?I s None 3 = Some (pS, s, None)" using internal_pdf_mode by blast
  have pdfmode: "implLengthShortLimitMargOverU0 this ext R uL s None
                   = Some (0.3 * pS + (1 - 0.3) * pO, s, None)"
    unfolding implLengthShortLimitMargOverU0_def Let_def option.case pO pS prod.case by simp
  show ?thesis
  proof (cases "fst (next1D smp) > 0.3")
    case True
    from smp True obtain a s1 smp2 where a: "?I s0 (Some (snd (next1D smp))) 3 = Some (a, s1, smp2)"
      unfolding implLengthShortLimitMargOverU0_def Let_def
      by (auto simp: split_beta split: option.splits simp del: Float_consts Float_numeral)
    obtain b where b: "?I s1 None 1.0 = Some (b, s1, None)" using internal_pdf_mode by blast
    have r: "pdf = 0.3 * a + (1 - 0.3) * b" "s = s1"
      using smp True unfolding implLengthShortLimitMargOverU0_def Let_def
      by (auto simp: split_beta a b simp del: Float_consts Float_numeral)
    have "?I s1 None 3 = Some (a, s1, None)" by (rule internal_consistent[OF p tn a])
    then have "pS = a" using pS unfolding r(2) by simp
    moreover have "pO = b" using pO b unfolding r(2) by simp
    ultimately show ?thesis unfolding pdfmode using r(1) by simp
  next
    case False
    from smp False obtain b s1 smp2 where b: "?I s0 (Some (snd (next1D smp))) 1.0 = Some (b, s1, smp2)"
      unfolding implLengthShortLimitMargOverU0_def Let_def
      by (auto simp: split_beta split: option.splits simp del: Float_consts Float_numeral)
    obtain a where a: "?I s1 None 3 = Some (a, s1, None)" using internal_pdf_mode by blast
    have r: "pdf = 0.3 * a + (1 - 0.3) * b" "s = s1"
      using smp False unfolding implLengthShortLimitMargOverU0_def Let_def
      by (auto simp: split_beta a b simp del: Float_consts Float_numeral)
    have "?I s1 None 1.0 = Some (b, s1, None)" by (rule internal_consistent[OF p tn b])
    then have "pO = b" using pO unfolding r(2) by simp
    moreover have "pS = a" using pS a unfolding r(2) by simp
    ultimately show ?thesis unfolding pdfmode using r(1) by simp
  qed
qed

lemma MargOverU0_pdf_mode:
  "\<exists>pdf. implLengthShortLimitMargOverU0 this ext R uL s None = Some (pdf, s, None)"
proof -
  let ?I = "implLengthShortLimitMargOverU0_internal this ext R uL"
  obtain pO where pO: "?I s None 1.0 = Some (pO, s, None)" using internal_pdf_mode by blast
  obtain pS where pS: "?I s None 3 = Some (pS, s, None)" using internal_pdf_mode by blast
  show ?thesis
    unfolding implLengthShortLimitMargOverU0_def Let_def option.case pO pS prod.case by simp
qed

lemma pdfLengthShortLimit_total:
  "\<exists>p1. pdfLengthShortLimit this ext R u0 uL s = Some p1"
proof (cases u0)
  case None
  obtain pdf where "implLengthShortLimitMargOverU0 this ext R uL s None = Some (pdf, s, None)"
    using MargOverU0_pdf_mode by blast
  then show ?thesis unfolding pdfLengthShortLimit_def implLengthShortLimit_def None by simp
next
  case (Some v)
  obtain pdf where "implLengthShortLimitKnownU0 this ext R v uL s None = Some (pdf, s, None)"
    using KnownU0_pdf_mode by blast
  then show ?thesis unfolding pdfLengthShortLimit_def implLengthShortLimit_def Some by simp
qed

lemma shortLimit_consistent:
  assumes p: "0.5 * sigma_s this * mu this = Fin p" "0 < p"
    and tn: "\<And>mean stddev smp. 0 \<le> fst (truncnorm ext mean stddev 0 PInf smp)"
    and smp: "sampleLengthShortLimit this ext R u0 uL s0 smp = Some (p1, s, smp')"
  shows "pdfLengthShortLimit this ext R u0 uL s = Some p1"
proof -
  from smp obtain x where i: "implLengthShortLimit this ext R u0 uL s0 (Some smp) = Some (p1, s, x)"
    unfolding sampleLengthShortLimit_def by (auto split: option.splits)
  have "implLengthShortLimit this ext R u0 uL s None = Some (p1, s, None)"
  proof (cases u0)
    case None
    then show ?thesis using i MargOverU0_consistent[OF p tn, of R uL s0 smp p1 s x]
      unfolding implLengthShortLimit_def by simp
  next
    case (Some v)
    then show ?thesis using i KnownU0_consistent[OF p tn, of R v uL s0 smp p1 s x]
      unfolding implLengthShortLimit_def by simp
  qed
  then show ?thesis unfolding pdfLengthShortLimit_def by simp
qed

lemma longLimit_consistent:
  assumes "sampleLengthLongLimit this ext Rx uL s0 smp = Some (p2, s, smp')" "p2 \<noteq> 0"
  shows "p2 = pdfLengthLongLimit this Rx uL s"
proof -
  define p where "p = 0.5 * sigma_s this * mu this"
  define beta where "beta = 3 / 2 * (lengthSquared (vscale Rx p) - dot (vscale Rx p) uL)"
  show ?thesis
  proof (cases "p = 0")
    case True
    then show ?thesis using assms
      unfolding sampleLengthLongLimit_def Let_def p_def[symmetric] by simp
  next
    case p0: False
    show ?thesis
    proof (cases "beta \<le> 0")
      case True
      then have "sampleLengthAbsorption this s0 smp = (p2, s, smp')"
        using assms(1) p0
        unfolding sampleLengthLongLimit_def Let_def p_def[symmetric] beta_def[symmetric] by simp
      then have "p2 = pdfLengthAbsorption this s"
        unfolding sampleLengthAbsorption_def pdfLengthAbsorption_def Let_def
        by (auto simp: split_beta split: if_splits)
      then show ?thesis using True p0
        unfolding pdfLengthLongLimit_def Let_def p_def[symmetric] beta_def[symmetric] by simp
    next
      case False
      then show ?thesis using assms p0
        unfolding sampleLengthLongLimit_def Let_def p_def[symmetric] beta_def[symmetric]
        by (auto simp: split_beta split: if_splits option.splits)
    qed
  qed
qed

lemma sampleLengthDipole_weight_eq:
  assumes q1: "pdfLengthShortLimit this ext R u0 uL s = Some q1"
    and p1: "p1 = - 1 \<or> p1 = q1"
    and p2: "p2 = - 1 \<or> p2 = pdfLengthLongLimit this R_effective uL s"
  shows "sampleLengthDipole_weight this ext R R_effective R_other u0 uL s p1 p2 (- 1)
     = Some (1.0 / (lengthSample_w1 * q1
                  + lengthSample_w2 * (0.5 * (pdfLengthLongLimit this R_effective uL s
                                              + pdfLengthLongLimit this R_other uL s))
                  + lengthSample_w3 * 0))"
  using p1 p2
  unfolding sampleLengthDipole_weight_def Let_def q1 lengthSample_w1_def lengthSample_w2_def
    lengthSample_w3_def
  by auto

lemma pdfLengthDipole_eq:
  assumes q1: "pdfLengthShortLimit this ext R u0 uL s = Some q1"
    and g: "getTentativeIndexMatchedVirtualSourceDisp this ext n0 nL uL R NaN tangentMode False
              = Some (R_virt, n0_effective, wt)"
  shows "pdfLengthDipole this ext uL nL R u0 n0 tangentMode s
     = Some (lengthSample_w1 * q1
                  + lengthSample_w2 * (0.5 * (pdfLengthLongLimit this R uL s
                                              + pdfLengthLongLimit this R_virt uL s))
                  + lengthSample_w3 * 0)"
  unfolding pdfLengthDipole_def Let_def g q1 lengthSample_w1_def lengthSample_w2_def
    lengthSample_w3_def
  by simp

text \<open>
  Sampling weight and density in exact arithmetic. Whenever \<^verbatim>\<open>sampleLengthDipole\<close> returns a
  nonzero importance weight together with a length \<open>s\<close>, the weight is
  \<open>1 / pdfLengthDipole\<close> at the same configuration and the same \<open>s\<close>: the mixture
  \<open>w1 * p1 + w2 * p2 + w3 * p3\<close> of the sampling routine, with the long-limit pdf averaged
  over \<open>R\<close> and \<open>R_virt\<close>, is what \<^verbatim>\<open>pdfLengthDipole\<close> recomputes. This is for valid optical
  parameters and a truncated-normal primitive that returns values in \<open>[0, \<infinity>]\<close>.

  The proof rests on the round trips of the short-limit routines (\<open>s = ps / p\<close> when
  sampling, \<open>ps = s * p\<close> when the density is re-evaluated, and the powers between \<open>t\<close> and
  \<open>ps\<close>) being exact, which holds for the exact finite arithmetic of \<open>Float\<close> here and not
  for the rounded arithmetic of the program. There the recomputed \<open>ps\<close> can differ from the
  sampled one, and next to the cut-off \<^verbatim>\<open>ps < uniformSpan\<close> of the uniform backup density the
  comparison can come out differently in the two evaluations; the lemma says nothing about
  that case.
\<close>

lemma sampleLengthDipole_weight_exact_arithmetic:
  assumes v: "valid_optics this"
    and tn: "\<forall>mean stddev smp. 0 \<le> fst (truncnorm ext mean stddev 0 PInf smp)"
    and smp: "sampleLengthDipole this ext uL nL R u0 n0 tangentMode s0 sampler
                = Some (w, s, sampler')"
    and w: "w \<noteq> 0"
  shows "\<exists>pdf. pdfLengthDipole this ext uL nL R u0 n0 tangentMode s = Some pdf \<and> w = 1 / pdf"
proof -
  obtain m ss where o: "mu this = Fin m" "0 < m" "sigma_s this = Fin ss" "0 < ss"
    using v unfolding valid_optics_Fin by blast
  define p where "p = 5 / 10 * ss * m"
  have p: "0.5 * sigma_s this * mu this = Fin p" "0 < p" using o by (simp_all add: p_def)
  have tn': "\<And>mean stddev smp. 0 \<le> fst (truncnorm ext mean stddev 0 PInf smp)"
    using tn by blast
  obtain R_virt n0_effective wt where
    g: "getTentativeIndexMatchedVirtualSourceDisp this ext n0 nL uL R NaN tangentMode False
              = Some (R_virt, n0_effective, wt)"
    using smp w unfolding sampleLengthDipole_def
    by (cases "getTentativeIndexMatchedVirtualSourceDisp this ext n0 nL uL R NaN tangentMode False")
       auto
  define x where "x = fst (next1D sampler)"
  define sampler1 where "sampler1 = snd (next1D sampler)"
  define R_effective where "R_effective = (if x < 0.5 then R else R_virt)"
  define R_other where "R_other = (if x < 0.5 then R_virt else R)"
  define u where "u = fst (next1D sampler1)"
  define sampler2 where "sampler2 = snd (next1D sampler1)"
  define finish where "finish = (\<lambda>p1 p2 p3 (s :: Float) (sampler :: Sampler).
                 case sampleLengthDipole_weight this ext R R_effective R_other u0 uL s p1 p2 p3 of
                   None \<Rightarrow> None
                 | Some w \<Rightarrow> Some (w, s, sampler))"
  have unf: "sampleLengthDipole this ext uL nL R u0 n0 tangentMode s0 sampler =
          (if u < lengthSample_w1 then
               (case sampleLengthShortLimit this ext R u0 uL s0 sampler2 of
                  None \<Rightarrow> None
                | Some (p1, s, sampler3) \<Rightarrow>
                    if p1 = 0 then Some (0.0, s, sampler3)
                    else finish p1 (- 1) (- 1) s sampler3)
             else if u < lengthSample_w1 + lengthSample_w2 then
               (case sampleLengthLongLimit this ext R_effective uL s0 sampler2 of
                  None \<Rightarrow> None
                | Some (p2, s, sampler3) \<Rightarrow>
                    if p2 = 0 then Some (0.0, s, sampler3)
                    else finish (- 1) p2 (- 1) s sampler3)
             else if u < lengthSample_w1 + lengthSample_w2 + lengthSample_w3 then
               (case sampleLengthAbsorption this s0 sampler2 of
                  (p3, s, sampler3) \<Rightarrow>
                    if p3 = 0 then Some (0.0, s, sampler3)
                    else finish (- 1) (- 1) p3 s sampler3)
             else finish (- 1) (- 1) (- 1) s0 sampler2)"
    unfolding sampleLengthDipole_def g option.case prod.case Let_def split_beta
      x_def sampler1_def R_effective_def R_other_def u_def sampler2_def finish_def
    by (simp only: fst_conv snd_conv if_distrib[of fst] if_distrib[of snd])
  have sym: "pdfLengthLongLimit this R_effective uL s + pdfLengthLongLimit this R_other uL s
           = pdfLengthLongLimit this R uL s + pdfLengthLongLimit this R_virt uL s"
    unfolding R_effective_def R_other_def by (simp add: Float_add_commute)
  obtain q1 where q1: "pdfLengthShortLimit this ext R u0 uL s = Some q1"
    using pdfLengthShortLimit_total by blast
  have fin: "w = 1 / (lengthSample_w1 * q1
                  + lengthSample_w2 * (0.5 * (pdfLengthLongLimit this R uL s
                                              + pdfLengthLongLimit this R_virt uL s))
                  + lengthSample_w3 * 0)"
    if "finish p1 p2 (- 1) s smpx = Some (w, s, sampler')"
      "p1 = - 1 \<or> p1 = q1" "p2 = - 1 \<or> p2 = pdfLengthLongLimit this R_effective uL s"
    for p1 p2 smpx
    using that(1) unfolding finish_def sampleLengthDipole_weight_eq[OF q1 that(2,3)] sym
    by simp
  have goal: "\<exists>pdf. pdfLengthDipole this ext uL nL R u0 n0 tangentMode s = Some pdf \<and> w = 1 / pdf"
    if "w = 1 / (lengthSample_w1 * q1
                  + lengthSample_w2 * (0.5 * (pdfLengthLongLimit this R uL s
                                              + pdfLengthLongLimit this R_virt uL s))
                  + lengthSample_w3 * 0)"
    unfolding pdfLengthDipole_eq[OF q1 g] using that by blast
  have w0: "w \<noteq> 0.0" using w by simp
  have sum: "lengthSample_w1 + lengthSample_w2 + lengthSample_w3 = lengthSample_w1 + lengthSample_w2"
    by (simp add: lengthSample_w1_def lengthSample_w2_def lengthSample_w3_def)
  show ?thesis
  proof (cases "u < lengthSample_w1")
    case True
    from smp True w0 obtain p1 smp3 where
      a: "sampleLengthShortLimit this ext R u0 uL s0 sampler2 = Some (p1, s, smp3)"
      and f: "finish p1 (- 1) (- 1) s smp3 = Some (w, s, sampler')"
      unfolding unf finish_def
      by (auto split: option.splits if_splits simp del: Float_consts Float_numeral)
    have "p1 = q1" using shortLimit_consistent[OF p tn' a] q1 by simp
    then show ?thesis using fin[OF f] by (intro goal) simp
  next
    case F1: False
    show ?thesis
    proof (cases "u < lengthSample_w1 + lengthSample_w2")
      case True
      from smp True F1 w0 obtain p2 smp3 where
        a: "sampleLengthLongLimit this ext R_effective uL s0 sampler2 = Some (p2, s, smp3)"
        and p20: "p2 \<noteq> 0"
        and f: "finish (- 1) p2 (- 1) s smp3 = Some (w, s, sampler')"
        unfolding unf finish_def
        by (auto split: option.splits if_splits simp del: Float_consts Float_numeral)
      have "p2 = pdfLengthLongLimit this R_effective uL s" by (rule longLimit_consistent[OF a p20])
      then show ?thesis using fin[OF f] by (intro goal) simp
    next
      case False
      then have f: "finish (- 1) (- 1) (- 1) s0 sampler2 = Some (w, s, sampler')"
        using smp F1 unfolding unf sum by (simp del: Float_consts Float_numeral)
      then have "s = s0" unfolding finish_def by (auto split: option.splits)
      with f show ?thesis using fin[of "- 1" "- 1" sampler2] by (intro goal) simp
    qed
  qed
qed

lemma sampleLengthDipole_weight_exact_arithmetic_example:
  "valid_optics example_absorbing_medium
   \<and> (\<forall>mean stddev smp. 0 \<le> fst (truncnorm example_collab mean stddev 0 PInf smp))
   \<and> sampleLengthDipole example_absorbing_medium example_collab (Vector 0 0 (- 1))
         (Vector 0 0 (- 1)) (Vector 0 0 0) None (Vector 0 0 1) EUnmodifiedIncoming 0
         (1 / 4 ## 3 / 4 ## sconst (1 / 2))
       = Some (4, Fin (ln 2), sconst (1 / 2))
   \<and> (4 :: Float) \<noteq> 0
   \<and> (\<exists>pdf. pdfLengthDipole example_absorbing_medium example_collab (Vector 0 0 (- 1))
         (Vector 0 0 (- 1)) (Vector 0 0 0) None (Vector 0 0 1) EUnmodifiedIncoming (Fin (ln 2))
           = Some pdf \<and> 4 = 1 / pdf)"
proof -
  have v: "valid_optics example_absorbing_medium"
    by (simp add: valid_optics_def example_absorbing_medium_def)
  have tn: "\<forall>mean stddev smp. 0 \<le> fst (truncnorm example_collab mean stddev 0 PInf smp)"
    by (simp add: example_collab_def)
  have g: "getTentativeIndexMatchedVirtualSourceDisp example_absorbing_medium example_collab
       (Vector 0 0 1) (Vector 0 0 (- 1)) (Vector 0 0 (- 1)) (Vector 0 0 0) NaN EUnmodifiedIncoming False
       = Some (Vector 0 0 (Fin (- (2 / 3))), Vector 0 0 1, None)"
    by (simp add: getTentativeIndexMatchedVirtualSourceDisp_def getVirtualDipoleSource_def
          example_absorbing_medium_def example_collab_def Let_def)
  have sh: "pdfLengthShortLimit example_absorbing_medium example_collab (Vector 0 0 0) None
              (Vector 0 0 (- 1)) s = Some 0" for s
    using shortLimit_zero_r[of "Vector 0 0 0" example_absorbing_medium]
    by (simp add: length_v_def example_absorbing_medium_def)
  have ll: "sampleLengthLongLimit example_absorbing_medium example_collab (Vector 0 0 0)
              (Vector 0 0 (- 1)) 0 (sconst (1 / 2)) = Some (Fin (1 / 2), Fin (ln 2), sconst (1 / 2))"
    by (simp add: sampleLengthLongLimit_def example_absorbing_medium_def Let_def vscale_def
          sampleLengthAbsorption_def next1D_def ln_div exp_minus)
  have p0: "pdfLengthLongLimit example_absorbing_medium (Vector 0 0 0) (Vector 0 0 (- 1)) (Fin (ln 2))
            = Fin (1 / 2)"
    by (simp add: pdfLengthLongLimit_def example_absorbing_medium_def Let_def vscale_def
          pdfLengthAbsorption_def exp_minus)
  have pv: "pdfLengthLongLimit example_absorbing_medium (Vector 0 0 (Fin (- (2 / 3))))
              (Vector 0 0 (- 1)) (Fin (ln 2)) = Fin (1 / 2)"
    by (simp add: pdfLengthLongLimit_def example_absorbing_medium_def Let_def vscale_def
          pdfLengthAbsorption_def exp_minus)
  have e: "sampleLengthDipole example_absorbing_medium example_collab (Vector 0 0 (- 1))
         (Vector 0 0 (- 1)) (Vector 0 0 0) None (Vector 0 0 1) EUnmodifiedIncoming 0
         (1 / 4 ## 3 / 4 ## sconst (1 / 2))
       = Some (4, Fin (ln 2), sconst (1 / 2))"
    unfolding sampleLengthDipole_def g option.case prod.case
    by (simp add: next1D_def Let_def lengthSample_w1_def
          lengthSample_w2_def lengthSample_w3_def ll[simplified] sampleLengthDipole_weight_def
          sh[simplified] p0[simplified] pv[simplified])
  have n: "(4 :: Float) \<noteq> 0" by simp
  from sampleLengthDipole_weight_exact_arithmetic[OF v tn e n] show ?thesis
    using v tn e n by blast
qed

subsection \<open>Reciprocity of the dipole kernel\<close>

lemma ZoverExpMinOne_pos:
  fixes z :: real assumes "0 < z"
  shows "\<exists>q. ZoverExpMinOne (Fin z) = Fin q \<and> 0 < q"
proof (cases "z < 2 / 1000")
  case True
  have zz: "0 < z * z" "z * z < 1" using assms True mult_strict_mono[of z 1 z 1] by simp_all
  have "z * z * (z * z) < 1 * 1" using zz by (intro mult_strict_mono) simp_all
  then have a: "z * (z * (z * z)) < 1" by (simp add: mult.assoc)
  have b: "0 \<le> z * z" by simp
  have "z * (z * (z * z)) < 720 + 360 * z + 60 * (z * z)"
    using a b assms by linarith
  then have "0 < 1 + 1 / 2 * z + 1 / 12 * z * z - 1 / 720 * z * z * z * z"
    by (simp add: mult.assoc)
  then show ?thesis using True by (simp add: ZoverExpMinOne_def)
next
  case False
  have "1 < exp z" using assms by simp
  then have "0 < z / (exp z - 1)" using assms by simp
  then show ?thesis using False \<open>1 < exp z\<close> by (simp add: ZoverExpMinOne_def)
qed

lemma normalization_pos:
  assumes cv: "calcValues this (Fin s) = (Fin C, Fin D, Fin E, Fin F, Fin Z)"
    and pos: "0 < F" "0 < Z"
    and p: "0.5 * sigma_s this * mu this = Fin p" "\<not> p * s < 6 / 1000"
    and a: "sigma_a this = Fin a"
  shows "\<exists>n. absorptionAndNormalizationConstant this (Fin s) = Fin n \<and> 0 < n"
proof -
  obtain q where q: "ZoverExpMinOne (Fin Z) = Fin q" "0 < q"
    using ZoverExpMinOne_pos[OF pos(2)] by blast
  have pi: "pow_fl M_PI 2.5 = Fin (pi powr (5 / 2))" by (simp add: M_PI_def)
  have "absorptionAndNormalizationConstant this (Fin s)
          = Fin (1 / 4 / pi powr (5 / 2) * exp (C - D - a * s) * sqrt F * F * q)"
    unfolding absorptionAndNormalizationConstant_def Let_def p(1) cv prod.case q(1) a pi
    using p(2) pos by simp
  moreover have "0 < 1 / 4 / pi powr (5 / 2) * exp (C - D - a * s) * sqrt F * F * q"
    using pos q(2) by simp
  ultimately show ?thesis by blast
qed

lemma example_values:
  "\<exists>C D E F Z n. calcValues example_medium (Fin (2 / 5)) = (Fin C, Fin D, Fin E, Fin F, Fin Z)
     \<and> absorptionAndNormalizationConstant example_medium (Fin (2 / 5)) = Fin n
     \<and> 0 < D \<and> D < E \<and> 0 < F \<and> 0 < n"
proof -
  have cv: "calcValues example_medium (Fin (2 / 5)) =
     (Fin 15, Fin (368161103 / 49218750), Fin (986997 / 17500), Fin (500061 / 3500),
      Fin (119840475150331 / 16408251562500))"
    by (simp add: calcValues_def calcValues_series_def example_medium_def Let_def)
  obtain n where "absorptionAndNormalizationConstant example_medium (Fin (2 / 5)) = Fin n" "0 < n"
    using normalization_pos[OF cv, of "1 / 2" 0] by (auto simp: example_medium_def)
  then show ?thesis
    unfolding cv
    by (intro exI[of _ 15] exI[of _ "368161103 / 49218750"] exI[of _ "986997 / 17500"]
          exI[of _ "500061 / 3500"] exI[of _ "119840475150331 / 16408251562500"] exI[of _ n])
       simp
qed

lemma evalMonopole_Fin:
  fixes a1 a2 a3 l1 l2 l3 r1 r2 r3 D E :: real
  defines "hx \<equiv> E * r1 - D * l1" and "hy \<equiv> E * r2 - D * l2" and "hz \<equiv> E * r3 - D * l3"
  defines "l \<equiv> sqrt (hx * hx + hy * hy + hz * hz)"
  assumes cv: "calcValues this (Fin s) = (Fin C, Fin D, Fin E, Fin F, Fin Z)"
    and N: "absorptionAndNormalizationConstant this (Fin s) = Fin n"
    and mu: "MIN_MU ext = Fin (1 / 1000)"
    and nz: "0 < l"
  shows "evalMonopole this ext (Vector (Fin a1) (Fin a2) (Fin a3))
            (Vector (Fin l1) (Fin l2) (Fin l3)) (Vector (Fin r1) (Fin r2) (Fin r3)) (Fin s)
         = Fin (n * exp (- C + E * (r1 * l1 + r2 * l2 + r3 * l3)
                  + min l 1000 * min (max ((a1 * hx + a2 * hy + a3 * hz) / l) (- 1)) 1
                  - F * (r1 * r1 + r2 * r2 + r3 * r3)))"
proof -
  let ?u0 = "Vector (Fin a1) (Fin a2) (Fin a3)"
  let ?uL = "Vector (Fin l1) (Fin l2) (Fin l3)"
  let ?R = "Vector (Fin r1) (Fin r2) (Fin r3)"
  let ?H = "Vector (Fin hx) (Fin hy) (Fin hz)"
  let ?Hn = "Vector (Fin (hx / l)) (Fin (hy / l)) (Fin (hz / l))"
  have H: "smul (Fin E) ?R - smul (Fin D) ?uL = ?H"
    by (simp add: hx_def hy_def hz_def)
  have sq: "0 \<le> hx * hx + hy * hy + hz * hz"
    by (intro add_nonneg_nonneg) simp_all
  have len: "length_v ?H = Fin l"
    using sq by (simp add: length_v_def l_def)
  have Hn: "sdiv ?H (Fin l) = ?Hn"
    using nz by simp
  have lreg: "(if Fin l > 1 / MIN_MU ext then 1 / MIN_MU ext else Fin l) = Fin (min l 1000)"
    by (simp add: mu min_def)
  have ct: "roundCosThetaForStability (dot ?u0 ?Hn) (- 1) 1
              = Fin (min (max ((a1 * hx + a2 * hy + a3 * hz) / l) (- 1)) 1)"
    by (simp add: roundCosThetaForStability_def reducePrecisionForCosTheta_def clamp_def
          max_fl_def min_fl_def min_def max_def add_divide_distrib)
  show ?thesis
    unfolding evalMonopole_def Let_def cv prod.case H len Hn lreg ct N
    by simp
qed

lemma evalDipole_parallel_displacement:
  "evalDipole example_medium example_collab (Vector 0 0 1) (Vector 0 0 (- 1))
     (Vector 1 0 0) (Vector 1 0 0) (Vector 0 0 (- 1)) len True reciprocal
     EFrisvadEtAl EClassicDiffusion False ERealAndVirt = 0"
  by (subst evalDipole.simps)
     (simp add: example_medium_def example_collab_def getVirtualDipoleSource_def length_v_def)

lemma reversed_real_monopole:
  assumes cv: "calcValues this (Fin s) = (Fin C, Fin D, Fin E, Fin F, Fin Z)"
    and N: "absorptionAndNormalizationConstant this (Fin s) = Fin n"
    and mu: "MIN_MU ext = Fin (1 / 1000)"
    and DE: "D < E"
  shows "evalMonopole this ext (Vector (Fin (- 1)) (Fin 0) (Fin 0))
            (Vector (Fin 0) (Fin 0) (Fin 1)) (Vector (Fin 0) (Fin 0) (Fin 1)) (Fin s)
         = Fin (n * exp (- C + E - F))"
  using evalMonopole_Fin[OF cv N mu, where ?a1.0 = "- 1" and ?a2.0 = 0 and ?a3.0 = 0
          and ?l1.0 = 0 and ?l2.0 = 0 and ?l3.0 = 1 and ?r1.0 = 0 and ?r2.0 = 0 and ?r3.0 = 1] DE
  by simp

lemma reversed_virtual_monopole:
  assumes cv: "calcValues this (Fin s) = (Fin C, Fin D, Fin E, Fin F, Fin Z)"
    and N: "absorptionAndNormalizationConstant this (Fin s) = Fin n"
    and mu: "MIN_MU ext = Fin (1 / 1000)"
    and pos: "0 < E" "0 < F"
  shows "\<exists>x. evalMonopole this ext (Vector (Fin 1) (Fin 0) (Fin 0))
            (Vector (Fin 0) (Fin 0) (Fin 1)) (Vector (Fin (- (4 / 3))) (Fin 0) (Fin 1)) (Fin s)
         = Fin (n * exp x) \<and> x < - C + E - F"
proof -
  define hx where "hx = E * (- (4 / 3))"
  define hz where "hz = E - D"
  define l where "l = sqrt (hx * hx + hz * hz)"
  have hx: "hx < 0" using pos by (simp add: hx_def)
  have "0 < hx * hx" using hx by (simp add: zero_less_mult_iff)
  moreover have "0 \<le> hz * hz" by simp
  ultimately have "0 < hx * hx + hz * hz" by linarith
  then have l: "0 < l" by (simp add: l_def)
  define c where "c = min (max (hx / l) (- 1)) 1"
  have "hx / l < 0" using hx l by (simp add: divide_neg_pos)
  then have c: "c < 0" by (simp add: c_def)
  have "0 < min l 1000" using l by simp
  then have lc: "min l 1000 * c < 0" using c by (simp add: mult_pos_neg)
  define x where "x = - C + E + min l 1000 * c - F * (16 / 9 + 1)"
  have "x < - C + E - F" using lc pos by (simp add: x_def algebra_simps)
  moreover have "evalMonopole this ext (Vector (Fin 1) (Fin 0) (Fin 0))
            (Vector (Fin 0) (Fin 0) (Fin 1)) (Vector (Fin (- (4 / 3))) (Fin 0) (Fin 1)) (Fin s)
         = Fin (n * exp x)"
    using evalMonopole_Fin[OF cv N mu, where ?a1.0 = 1 and ?a2.0 = 0 and ?a3.0 = 0
          and ?l1.0 = 0 and ?l2.0 = 0 and ?l3.0 = 1 and ?r1.0 = "- (4 / 3)" and ?r2.0 = 0
          and ?r3.0 = 1] l
    by (simp add: x_def c_def l_def hx_def hz_def)
  ultimately show ?thesis by blast
qed

text \<open>
  Claim C2 (exact reciprocity under the reciprocal flag) fails on the code. With
  \<^verbatim>\<open>reciprocal = true\<close> the kernel averages the transport of the configuration and of its
  reversal, but only after the virtual source of the configuration itself has been built: when
  \<^verbatim>\<open>getVirtualDipoleSource\<close> fails, \<^verbatim>\<open>evalDipole\<close> returns \<open>0\<close> before the average is taken.
  In the index-matched example medium, with entry normal \<open>(0, 0, 1)\<close>, incoming direction
  \<open>(0, 0, -1)\<close>, exit normal and outgoing direction \<open>(1, 0, 0)\<close>, displacement
  \<open>R = (0, 0, -1)\<close> and length \<open>2 / 5\<close>, the displacement is parallel to the entry normal, the
  tangent plane of Frisvad et al. is undefined and the kernel is \<open>0\<close>; for the reversed
  configuration (entry and exit swapped, directions and \<open>R\<close> negated) the virtual source
  exists and the kernel is strictly positive.
\<close>

theorem evalDipole_reciprocal_not_symmetric:
  "evalDipole example_medium example_collab (Vector 0 0 1) (Vector 0 0 (- 1))
     (Vector 1 0 0) (Vector 1 0 0) (Vector 0 0 (- 1)) (Fin (2 / 5)) True True
     EFrisvadEtAl EClassicDiffusion False ERealAndVirt = 0
   \<and> 0 < evalDipole example_medium example_collab (Vector 1 0 0) (- Vector 1 0 0)
     (Vector 0 0 1) (- Vector 0 0 (- 1)) (- Vector 0 0 (- 1)) (Fin (2 / 5)) True True
     EFrisvadEtAl EClassicDiffusion False ERealAndVirt"
proof -
  obtain C D E F Z n where
    cv: "calcValues example_medium (Fin (2 / 5)) = (Fin C, Fin D, Fin E, Fin F, Fin Z)" and
    N: "absorptionAndNormalizationConstant example_medium (Fin (2 / 5)) = Fin n" and
    pos: "0 < D" "D < E" "0 < F" "0 < n"
    using example_values by blast
  have mu: "MIN_MU example_collab = Fin (1 / 1000)" by (simp add: example_collab_def)
  have E: "0 < E" using pos by linarith
  note real = reversed_real_monopole[OF cv N mu pos(2)]
  obtain x where
    virt: "evalMonopole example_medium example_collab (Vector (Fin 1) (Fin 0) (Fin 0))
            (Vector (Fin 0) (Fin 0) (Fin 1)) (Vector (Fin (- (4 / 3))) (Fin 0) (Fin 1))
            (Fin (2 / 5)) = Fin (n * exp x)" and
    x: "x < - C + E - F"
    using reversed_virtual_monopole[OF cv N mu E pos(3)] by blast
  have rf: "refract example_collab wi nrm eta = (- wi, 0)" for wi nrm eta
    by (simp add: example_collab_def)
  have eta: "m_eta example_medium = 1" by (simp add: example_medium_def)
  have gv: "getVirtualDipoleSource example_medium example_collab (Vector 1 0 0)
      (Vector (- 1) 0 0) (Vector 0 0 1) (Vector 0 0 1) (Vector 0 0 1) (Fin (2 / 5)) True
      EFrisvadEtAl EClassicDiffusion
      = Some (Vector 1 0 0, Vector (- (4 / 3)) 0 1, Vector 1 0 0)"
    by (simp add: example_medium_def example_collab_def getVirtualDipoleSource_def
          length_v_def normalize_def Let_def)
  have gap: "0 < n * exp (- C + E - F) - n * exp x"
    using x pos(4) by simp
  have rev: "evalDipole example_medium example_collab (Vector 1 0 0) (- Vector 1 0 0)
     (Vector 0 0 1) (- Vector 0 0 (- 1)) (- Vector 0 0 (- 1)) (Fin (2 / 5)) True True
     EFrisvadEtAl EClassicDiffusion False ERealAndVirt
      = Fin (1 / 2 * (n * exp (- C + E - F) - n * exp x))"
    by (subst evalDipole.simps)
       (simp add: rf eta gv[simplified] real virt evalDipole_parallel_displacement[simplified]
          algebra_simps)
  show ?thesis
    using gap by (simp only: rev evalDipole_parallel_displacement) simp
qed

end
